theory Spec2Isabelle
  imports Main "HOL-Library.Word"
begin

section \<open>Common types\<close>

text \<open>
  Go byte slices are lists of 8-bit words; a Go \<open>error\<close> value is its message.
  A \<open>dr.Key\<close> is a \<open>[32]byte\<close>: a byte list of length 32, whose zero value is
  \<open>zero_key\<close>. A run-time panic (nil pointer dereference) is an outcome of its own.
\<close>

type_synonym bytes = "8 word list"

datatype error = Error string

datatype 'a outcome = Panic | Return 'a

definition zero_key :: bytes where
  "zero_key = replicate 32 0"

text \<open>\<open>copy(dst[:], src)\<close> into a fresh 32-byte array: the first 32 bytes, zero padded.\<close>

definition copy32 :: "bytes \<Rightarrow> bytes" where
  "copy32 src = take 32 src @ replicate (32 - length src) 0"

subsection \<open>encoding/hex\<close>

definition hexdigits :: string where
  "hexdigits = ''0123456789abcdef''"

definition hex_byte :: "8 word \<Rightarrow> string" where
  "hex_byte b = [hexdigits ! (unat b div 16), hexdigits ! (unat b mod 16)]"

definition hex_EncodeToString :: "bytes \<Rightarrow> string" where
  "hex_EncodeToString bs = concat (map hex_byte bs)"

definition fromHexChar :: "char \<Rightarrow> nat option" where
  "fromHexChar c =
     (let n = of_char c :: nat in
      if of_char CHR ''0'' \<le> n \<and> n \<le> of_char CHR ''9'' then Some (n - of_char CHR ''0'')
      else if of_char CHR ''a'' \<le> n \<and> n \<le> of_char CHR ''f'' then Some (n - of_char CHR ''a'' + 10)
      else if of_char CHR ''A'' \<le> n \<and> n \<le> of_char CHR ''F'' then Some (n - of_char CHR ''A'' + 10)
      else None)"

fun hex_Decode :: "string \<Rightarrow> error + bytes" where
  "hex_Decode [] = Inr []"
| "hex_Decode [c] = Inl (Error ''encoding/hex: odd length hex string'')"
| "hex_Decode (a # b # rest) =
     (case fromHexChar a of
        None \<Rightarrow> Inl (Error ''encoding/hex: invalid byte'')
      | Some x \<Rightarrow>
          (case fromHexChar b of
             None \<Rightarrow> Inl (Error ''encoding/hex: invalid byte'')
           | Some y \<Rightarrow>
               (case hex_Decode rest of
                  Inl e \<Rightarrow> Inl e
                | Inr bs \<Rightarrow> Inr (word_of_nat (x * 16 + y) # bs))))"

definition hex_DecodeString :: "string \<Rightarrow> error + bytes" where
  "hex_DecodeString s = hex_Decode s"


section \<open>client: DoubleRatchetKeyStore (client/client\_key\_store.go)\<close>

text \<open>
  The store talks to the device through \<open>api.Send\<close>. A call to \<open>Send\<close> either fails
  at once or hands back a channel on which the device's response arrives; the model
  folds the send and the receive into one step of the environment and keeps the list of
  calls issued, so that "no request was issued" is a property of the state.
\<close>

datatype rpc_call =
    DRKeyStoreGetCall string nat
  | DRKeyStorePutCall string nat bytes
  | DRKeyStoreDeleteMK string nat

record device_Response =
  resp_Error :: "error option"
  resp_Payload :: string

record DRKeyStoreGetResponse =
  gr_Key :: bytes
  gr_Ok :: bool

record client_env =
  api_Send :: "rpc_call \<Rightarrow> error + device_Response"
  UnmarshalDRKeyStoreGetResponse :: "string \<Rightarrow> DRKeyStoreGetResponse \<times> error option"
  km_AESEncrypt :: "bytes \<Rightarrow> bytes \<times> error option"

type_synonym client_state = "rpc_call list"

definition DoubleRatchetKeyStore_Get ::
  "client_env \<Rightarrow> client_state \<Rightarrow> bytes \<Rightarrow> nat \<Rightarrow> (bytes \<times> bool) \<times> client_state" where
  "DoubleRatchetKeyStore_Get env st k msgNum =
     (let call = DRKeyStoreGetCall (hex_EncodeToString k) msgNum;
          st' = st @ [call]
      in case api_Send env call of
           Inl err \<Rightarrow> ((zero_key, False), st')
         | Inr resp \<Rightarrow>
             (if resp_Error resp \<noteq> None then ((zero_key, False), st')
              else
                (case UnmarshalDRKeyStoreGetResponse env (resp_Payload resp) of
                   (keyResp, Some err) \<Rightarrow> ((gr_Key keyResp, False), st')
                 | (keyResp, None) \<Rightarrow> ((gr_Key keyResp, gr_Ok keyResp), st'))))"

definition DoubleRatchetKeyStore_Put ::
  "client_env \<Rightarrow> client_state \<Rightarrow> bytes \<Rightarrow> nat \<Rightarrow> bytes \<Rightarrow> client_state" where
  "DoubleRatchetKeyStore_Put env st k msgNum mk =
     (let ct = fst (km_AESEncrypt env mk)
      in st @ [DRKeyStorePutCall (hex_EncodeToString k) msgNum ct])"

definition DoubleRatchetKeyStore_DeleteMk ::
  "client_env \<Rightarrow> client_state \<Rightarrow> bytes \<Rightarrow> nat \<Rightarrow> client_state" where
  "DoubleRatchetKeyStore_DeleteMk env st k msgNum =
     st @ [DRKeyStoreDeleteMK (hex_EncodeToString k) msgNum]"

definition DoubleRatchetKeyStore_DeletePk ::
  "client_env \<Rightarrow> client_state \<Rightarrow> bytes \<Rightarrow> client_state" where
  "DoubleRatchetKeyStore_DeletePk env st k = st"

definition DoubleRatchetKeyStore_Count ::
  "client_env \<Rightarrow> client_state \<Rightarrow> bytes \<Rightarrow> nat \<times> client_state" where
  "DoubleRatchetKeyStore_Count env st k = (9, st)"


section \<open>api: DoubleRatchetKeyStoreApi (the key store proxied through the device API)\<close>

text \<open>
  \<open>s.api.request(&req, 8s)\<close> sends the request and waits for the answer; a transport
  failure and the 8 second timeout both come back as its error. On success it hands
  back the device's \<open>pb.Response\<close> and the \<open>Closer\<close> channel.

  The declarations of \<open>pb.Request\<close> and \<open>pb.Response\<close> (generated protobuf code)
  and \<open>api.request\<close> are not among the sources, so \<open>request\<close> is a parameter of the
  model and the response carries the fields \<open>Get\<close> reads. Message-typed fields of
  generated Go structs are pointers, as the literal \<open>&pb.Request_DRKeyStoreGet{...}\<close> in
  \<open>Get\<close> shows for the request side and the nil tests on \<open>msg.Request\<close>, \<open>msg.Response\<close>
  and \<open>resp.Auth\<close> in the backend show for responses, so the sub-message \<open>DRKeyStoreGet\<close>
  of a response is optional, and reading a field through a nil one panics. The
  response reaches \<open>request\<close> from the host application (through \<open>SendResponse\<close>), which
  fills in whichever sub-message it chooses.
\<close>

record Response_DRKeyStoreGet =
  MessageKey :: bytes

record pb_Response =
  DRKeyStoreGet :: "Response_DRKeyStoreGet option"

record api_Response =
  Msg :: pb_Response

datatype pb_Request =
    Request_DRKeyStoreGet bytes nat

record api_env =
  api_request :: "pb_Request \<Rightarrow> error + api_Response"
  aes_Unmarshal :: "bytes \<Rightarrow> error + bytes"
  AESDecrypt :: "bytes \<Rightarrow> error + bytes"

text \<open>
  The result of \<open>Get\<close> is the pair \<open>(mk, ok)\<close> together with what was sent on the
  response's \<open>Closer\<close> channel (\<open>None\<close>: nothing was sent, there is no response).
\<close>

definition DoubleRatchetKeyStoreApi_Get ::
  "api_env \<Rightarrow> bytes \<Rightarrow> nat \<Rightarrow> ((bytes \<times> bool) \<times> error option option) outcome" where
  "DoubleRatchetKeyStoreApi_Get env k msgNum =
     (case api_request env (Request_DRKeyStoreGet k msgNum) of
        Inl err \<Rightarrow> Return ((zero_key, False), None)
      | Inr resp \<Rightarrow>
          (case DRKeyStoreGet (Msg resp) of
             None \<Rightarrow> Panic
           | Some g \<Rightarrow>
               (case aes_Unmarshal env (MessageKey g) of
                  Inl err \<Rightarrow> Return ((zero_key, False), Some (Some err))
                | Inr ct \<Rightarrow>
                    (case AESDecrypt env ct of
                       Inl err \<Rightarrow> Return ((zero_key, False), Some (Some err))
                     | Inr messageKey \<Rightarrow>
                         (if length messageKey \<noteq> 32
                          then Return ((zero_key, False),
                                 Some (Some (Error ''a decrypted message key must have exactly 32 bytes'')))
                          else Return ((copy32 messageKey, True), Some None))))))"


section \<open>backend: inbound dispatch (the \<open>OnMessage\<close> callback of \<open>NewServerBackend\<close>)\<close>

record bpb_PreKey =
  pk_Key :: bytes
  pk_IdentityKeySignature :: bytes

record bpb_Request =
  req_Messages :: "bytes list"
  req_NewOneTimePreKeys :: nat

record bpb_Response =
  resp_OneTimePrekeys :: "bpb_PreKey list"
  resp_Auth :: "unit option"

record BackendMessage =
  bm_RequestID :: string
  bm_Request :: "bpb_Request option"
  bm_Response :: "bpb_Response option"
  bm_Error :: string

text \<open>
  A \<open>RequestHandler\<close> returns a response pointer and an error; the dispatcher looks at
  the error first. What travels on a response channel is the internal \<open>response\<close>.
\<close>

type_synonym RequestHandler = "bpb_Request \<Rightarrow> bpb_Response option \<times> error option"

record response =
  r_resp :: "bpb_Response option"
  r_err :: "error option"

text \<open>
  The state of a \<open>Backend\<close> that the dispatcher reads and writes: the correlation table
  (request id to response channel, channels named by numbers), the authenticated flag
  and the handler chain; and, to observe its effects, the messages handed to
  \<open>transport.Send\<close>, the positions of the handlers that were called, and what was put
  on which response channel.
\<close>

record Backend =
  stack :: "string \<rightharpoonup> nat"
  requestHandler :: "RequestHandler list"
  authenticated :: bool
  sent :: "BackendMessage list"
  invoked :: "nat list"
  delivered :: "(nat \<times> response) list"

definition AddRequestHandler :: "RequestHandler \<Rightarrow> Backend \<Rightarrow> Backend" where
  "AddRequestHandler handler b = b\<lparr>requestHandler := requestHandler b @ [handler]\<rparr>"

text \<open>
  Modelled from the spec: \<open>requestStack.Cut\<close> is not among the sources. The spec has
  responses "matched to a pending request purely by request id via an atomic cut
  (remove-and-return)"; the caller tests the channel it returns for nil.
\<close>

definition Cut :: "(string \<rightharpoonup> nat) \<Rightarrow> string \<Rightarrow> nat option \<times> (string \<rightharpoonup> nat)" where
  "Cut stk reqID = (stk reqID, stk(reqID := None))"

definition err_Error :: "error \<Rightarrow> string" where
  "err_Error e = (case e of Error s \<Rightarrow> s)"

text \<open>
  The loop over the handler chain. Its result is \<open>Some r\<close> when the callback returned
  \<open>r\<close> from inside the loop, and \<open>None\<close> when the loop ran to its end. \<open>tsend\<close> is the
  transport's \<open>Send\<close>; \<open>i\<close> is the position of the next handler in the chain.
\<close>

fun handle_requests ::
  "(BackendMessage \<Rightarrow> error option) \<Rightarrow> string \<Rightarrow> bpb_Request \<Rightarrow> nat \<Rightarrow>
   RequestHandler list \<Rightarrow> Backend \<Rightarrow> error option option \<times> Backend" where
  "handle_requests tsend reqID req i [] b = (None, b)"
| "handle_requests tsend reqID req i (h # hs) b =
     (let b1 = b\<lparr>invoked := invoked b @ [i]\<rparr> in
      case h req of
        (resp, Some err) \<Rightarrow>
          (let m = \<lparr>bm_RequestID = reqID, bm_Request = None, bm_Response = None,
                    bm_Error = err_Error err\<rparr>
           in (Some (tsend m), b1\<lparr>sent := sent b1 @ [m]\<rparr>))
      | (None, None) \<Rightarrow> handle_requests tsend reqID req (Suc i) hs b1
      | (Some resp, None) \<Rightarrow>
          (let m = \<lparr>bm_RequestID = reqID, bm_Request = None, bm_Response = Some resp,
                    bm_Error = []\<rparr>;
               b2 = b1\<lparr>sent := sent b1 @ [m]\<rparr>
           in case tsend m of
                Some err \<Rightarrow> (Some (Some err), b2)
              | None \<Rightarrow> handle_requests tsend reqID req (Suc i) hs b2))"

text \<open>The response half of the callback, run when \<open>msg.Response\<close> is not nil.\<close>

definition handle_response :: "BackendMessage \<Rightarrow> bpb_Response \<Rightarrow> Backend \<Rightarrow> error option \<times> Backend" where
  "handle_response msg resp b =
     (case Cut (stack b) (bm_RequestID msg) of
        (None, stk) \<Rightarrow>
          (Some (Error (''failed to fetch response channel for id: '' @ bm_RequestID msg)),
           b\<lparr>stack := stk\<rparr>)
      | (Some respChan, stk) \<Rightarrow>
          (if bm_Error msg \<noteq> []
           then (None, b\<lparr>stack := stk,
                   delivered := delivered b @
                     [(respChan, \<lparr>r_resp = None, r_err = Some (Error (bm_Error msg))\<rparr>)]\<rparr>)
           else (None, b\<lparr>stack := stk,
                   authenticated := (if resp_Auth resp \<noteq> None then True else authenticated b),
                   delivered := delivered b @
                     [(respChan, \<lparr>r_resp = Some resp, r_err = None\<rparr>)]\<rparr>)))"

text \<open>
  The callback itself. (The message of its first error has a typographic apostrophe in
  the source; it is written in ASCII here.)
\<close>

definition OnMessage ::
  "(BackendMessage \<Rightarrow> error option) \<Rightarrow> BackendMessage \<Rightarrow> Backend \<Rightarrow> error option \<times> Backend" where
  "OnMessage tsend msg b =
     (if bm_Request msg \<noteq> None \<and> bm_Response msg \<noteq> None
      then (Some (Error ''a message can not have a response and a request at the same time''), b)
      else
        (case (case bm_Request msg of
                 None \<Rightarrow> (None, b)
               | Some req \<Rightarrow>
                   handle_requests tsend (bm_RequestID msg) req 0 (requestHandler b) b) of
           (Some r, b1) \<Rightarrow> (r, b1)
         | (None, b1) \<Rightarrow>
             (case bm_Response msg of
                None \<Rightarrow> (None, b1)
              | Some resp \<Rightarrow> handle_response msg resp b1)))"


section \<open>chat: request handlers (chat/handler.go)\<close>

record KeyPair =
  PublicKey :: bytes
  PrivateKey :: bytes

text \<open>
  The collaborators of \<open>oneTimePreKeysHandler\<close>: the curve's key generation (the
  \<open>n\<close>-th draw from its random source), the one-time pre-key storage, the signing of a
  pre-key with the identity key, and the conversion to protobuf. Each can fail.
\<close>

record handler_env =
  GenerateKeyPair :: "nat \<Rightarrow> error + KeyPair"
  oneTimePreKeyStorage_Put :: "KeyPair list \<Rightarrow> error option"
  pk_Sign :: "bytes \<Rightarrow> error + bytes"
  pk_ToProtobuf :: "bytes \<times> bytes \<Rightarrow> error + bpb_PreKey"

text \<open>
  The generation loop runs until \<open>len(keyPairs) == int(req.NewOneTimePreKeys)\<close>; it
  has no other exit but a generation error, so it is a partial function, \<open>None\<close>
  standing for "does not return".
\<close>

partial_function (option) generateKeyPairs ::
  "(nat \<Rightarrow> error + KeyPair) \<Rightarrow> nat \<Rightarrow> KeyPair list \<Rightarrow> (error + KeyPair list) option" where
  "generateKeyPairs gen n keyPairs =
     (if length keyPairs = n then Some (Inr keyPairs)
      else (case gen (length keyPairs) of
              Inl err \<Rightarrow> Some (Inl err)
            | Inr keyPair \<Rightarrow> generateKeyPairs gen n (keyPairs @ [keyPair])))"

fun signPreKeys :: "handler_env \<Rightarrow> KeyPair list \<Rightarrow> bpb_PreKey list \<Rightarrow> error + bpb_PreKey list" where
  "signPreKeys env [] preKeys = Inr preKeys"
| "signPreKeys env (oneTimePreKey # rest) preKeys =
     (case pk_Sign env (PublicKey oneTimePreKey) of
        Inl err \<Rightarrow> Inl (Error ''failed to sign one time pre key'')
      | Inr sig \<Rightarrow>
          (case pk_ToProtobuf env (PublicKey oneTimePreKey, sig) of
             Inl err \<Rightarrow> Inl (Error ''failed to convert pre key to protobuf'')
           | Inr pkProto \<Rightarrow> signPreKeys env rest (preKeys @ [pkProto])))"

text \<open>
  The handler's state is the list of batches handed to the storage's \<open>Put\<close>. The result
  is the Go pair (response, error) and the new state; \<open>None\<close> is "does not return".
\<close>

definition oneTimePreKeysHandler ::
  "handler_env \<Rightarrow> bpb_Request \<Rightarrow> KeyPair list list \<Rightarrow>
   ((bpb_Response option \<times> error option) \<times> KeyPair list list) option" where
  "oneTimePreKeysHandler env req puts =
     (if req_NewOneTimePreKeys req = 0 then Some ((None, None), puts)
      else if req_NewOneTimePreKeys req > 100
      then Some ((None, Some (Error ''requested more then the max allowed pre keys'')), puts)
      else
        (case generateKeyPairs (GenerateKeyPair env) (req_NewOneTimePreKeys req) [] of
           None \<Rightarrow> None
         | Some (Inl err) \<Rightarrow> Some ((None, Some err), puts)
         | Some (Inr keyPairs) \<Rightarrow>
             (case oneTimePreKeyStorage_Put env keyPairs of
                Some err \<Rightarrow>
                  Some ((None, Some (Error ''failed to persist generated key pairs'')),
                        puts @ [keyPairs])
              | None \<Rightarrow>
                  (case signPreKeys env keyPairs [] of
                     Inl err \<Rightarrow> Some ((None, Some err), puts @ [keyPairs])
                   | Inr preKeys \<Rightarrow>
                       Some ((Some \<lparr>resp_OneTimePrekeys = preKeys, resp_Auth = None\<rparr>, None),
                             puts @ [keyPairs])))))"

text \<open>
  \<open>messagesHandler\<close> hands every message of a batch to \<open>handleReceivedMessage\<close>, waits
  for all of them and acknowledges the batch with an empty response; a request without
  messages is not its business.
\<close>

definition messagesHandler :: RequestHandler where
  "messagesHandler req =
     (if length (req_Messages req) > 0
      then (Some \<lparr>resp_OneTimePrekeys = [], resp_Auth = None\<rparr>, None)
      else (None, None))"


section \<open>db: the chat message storage\<close>

type_synonym Status = nat

definition StatusSent :: Status where "StatusSent = 100"
definition StatusFailedToSend :: Status where "StatusFailedToSend = 200"
definition StatusDelivered :: Status where "StatusDelivered = 300"
definition StatusFailedToHandle :: Status where "StatusFailedToHandle = 400"
definition StatusPersisted :: Status where "StatusPersisted = 500"
definition DAppMessageVersion :: nat where "DAppMessageVersion = 1"

definition statuses :: "Status \<rightharpoonup> bool" where
  "statuses = [StatusSent \<mapsto> True, StatusFailedToSend \<mapsto> True, StatusDelivered \<mapsto> True,
               StatusFailedToHandle \<mapsto> True, StatusPersisted \<mapsto> True]"

record DAppMessage =
  DAppPublicKey :: bytes
  dapp_Type :: string
  ShouldSend :: bool

text \<open>
  \<open>CreatedAt\<close> and \<open>DatabaseID\<close> are \<open>int64\<close>: 64-bit words read as signed by
  \<open>sint\<close>; the conversions to and from \<open>uint64\<close> keep the bits.
\<close>

record Message =
  ID :: string
  Version :: nat
  Status :: Status
  Received :: bool
  DApp :: "DAppMessage option"
  Message :: bytes
  CreatedAt :: "64 word"
  Sender :: bytes
  DatabaseID :: "64 word"

definition ValidMessage :: "Message \<Rightarrow> error option" where
  "ValidMessage m =
     (if ID m = [] then Some (Error ''invalid message id (empty string)'')
      else if Version m = 0 then Some (Error ''invalid version - got 0'')
      else if statuses (Status m) = None then Some (Error ''invalid status (is not registered)'')
      else if DApp m = None \<and> length (Message m) = 0
        then Some (Error ''got invalid message - dapp and message are both nil'')
      else if (case DApp m of None \<Rightarrow> False | Some d \<Rightarrow> length (DAppPublicKey d) \<noteq> 32)
        then Some (Error ''invalid dapp public key'')
      else if sint (CreatedAt m) \<le> 2147483647
        then Some (Error ''invalid created at - must be bigger than 2147483647'')
      else if length (Sender m) \<noteq> 32 \<and> DApp m = None
        then Some (Error ''invalid sender'')
      else None)"

record MessagePersistedEvent =
  ev_Partner :: bytes
  ev_Message :: Message
  ev_DBMessageID :: "64 word"

text \<open>
  A bolt bucket keeps its entries ordered by key. The partner buckets hold 8-byte
  big-endian keys only, and the byte order of those is the order of the unsigned
  64-bit numbers they encode, so a partner bucket is a list of (key, value) pairs in
  ascending key order. \<open>Get\<close> of a key that is not there is nil, the empty byte slice.
\<close>

type_synonym bucket = "(64 word \<times> bytes) list"

definition bucket_Get :: "bucket \<Rightarrow> 64 word \<Rightarrow> bytes option" where
  "bucket_Get b k = map_of b k"

fun bucket_Put :: "bucket \<Rightarrow> 64 word \<Rightarrow> bytes \<Rightarrow> bucket" where
  "bucket_Put [] k v = [(k, v)]"
| "bucket_Put ((k', v') # rest) k v =
     (if k < k' then (k, v) # (k', v') # rest
      else if k = k' then (k, v) # rest
      else (k', v') # bucket_Put rest k v)"

text \<open>
  The storage: the \<open>private_chat\<close> bucket (absent until the first write) with one
  bucket per partner, and the events handed to the listeners on commit. Its
  environment: the sealing of a message (\<open>json.Marshal\<close>, \<open>AESEncrypt\<close>, \<open>Marshal\<close>), the
  opening of a stored value (\<open>aes.Unmarshal\<close>, \<open>AESDecrypt\<close>, \<open>json.Unmarshal\<close>) and the
  commit of a write transaction.
\<close>

record storage =
  private_chat :: "(bytes \<rightharpoonup> bucket) option"
  events :: "MessagePersistedEvent list"

record storage_env =
  seal :: "Message \<Rightarrow> error + bytes"
  decRawMsg :: "bytes \<Rightarrow> error + Message"
  tx_commit :: "error option"

text \<open>
  The loop of \<open>persistMessage\<close> that looks for a free key: \<open>createdAtMsgID\<close> starts as
  the timestamp's bytes and is rewritten, in every round, with the bytes of
  \<open>msg.CreatedAt + 1\<close>. The counter \<open>tried\<close> is a Go \<open>int\<close> (64 bits); the loop leaves
  when it equals 1000.
\<close>

function find_createdAtMsgID :: "bucket \<Rightarrow> 64 word \<Rightarrow> 64 word \<Rightarrow> 64 word \<Rightarrow> 64 word" where
  "find_createdAtMsgID partnerBucket createdAt createdAtMsgID tried =
     (if bucket_Get partnerBucket createdAtMsgID = None \<or> tried = 1000 then createdAtMsgID
      else find_createdAtMsgID partnerBucket createdAt (createdAt + 1) (tried + 1))"
  by pat_completeness auto
termination
proof (relation "measure (\<lambda>(b, c, k, tried). unat (1000 - tried))")
  show "wf (measure (\<lambda>(b, c, k, tried :: 64 word). unat (1000 - tried)))"
    by simp
next
  fix partnerBucket :: bucket and createdAt createdAtMsgID tried :: "64 word"
  assume "\<not> (bucket_Get partnerBucket createdAtMsgID = None \<or> tried = 1000)"
  then have "1000 - tried \<noteq> 0"
    by simp
  then have "unat (1000 - tried - 1) < unat (1000 - tried)"
    by (rule measure_unat)
  moreover have "1000 - (tried + 1) = 1000 - tried - 1"
    by simp
  ultimately show "((partnerBucket, createdAt, createdAt + 1, tried + 1),
                    (partnerBucket, createdAt, createdAtMsgID, tried))
                   \<in> measure (\<lambda>(b, c, k, tried). unat (1000 - tried))"
    by simp
qed

declare find_createdAtMsgID.simps [simp del]

definition persistMessage ::
  "storage_env \<Rightarrow> storage \<Rightarrow> bytes \<Rightarrow> Message \<Rightarrow> error option \<times> storage" where
  "persistMessage env s partner msg0 =
     (let msg = msg0\<lparr>Version := DAppMessageVersion\<rparr> in
      case ValidMessage msg of
        Some err \<Rightarrow> (Some err, s)
      | None \<Rightarrow>
          (if partner = [] then (Some (Error ''bucket name required''), s)
           else
             (let privChatBucket = (case private_chat s of None \<Rightarrow> Map.empty | Some c \<Rightarrow> c);
                  partnerBucket = (case privChatBucket partner of None \<Rightarrow> [] | Some b \<Rightarrow> b);
                  createdAtMsgID =
                    find_createdAtMsgID partnerBucket (CreatedAt msg) (CreatedAt msg) 0;
                  msg' = msg\<lparr>DatabaseID := createdAtMsgID\<rparr>
              in case seal env msg' of
                   Inl err \<Rightarrow> (Some err, s)
                 | Inr rawEncryptedMessage \<Rightarrow>
                     (case tx_commit env of
                        Some err \<Rightarrow> (Some err, s)
                      | None \<Rightarrow>
                          (None,
                           s\<lparr>private_chat :=
                                Some (privChatBucket(partner \<mapsto>
                                  bucket_Put partnerBucket createdAtMsgID rawEncryptedMessage)),
                              events := events s @
                                [\<lparr>ev_Partner = partner, ev_Message = msg',
                                  ev_DBMessageID = createdAtMsgID\<rparr>]\<rparr>)))))"

definition PersistReceivedMessage ::
  "storage_env \<Rightarrow> storage \<Rightarrow> bytes \<Rightarrow> Message \<Rightarrow> error option \<times> storage" where
  "PersistReceivedMessage env s partner msg =
     persistMessage env s partner (msg\<lparr>Status := StatusPersisted, Received := True\<rparr>)"

text \<open>The stub of the source: it writes nothing and reports no error.\<close>

definition UpdateStatus ::
  "storage \<Rightarrow> bytes \<Rightarrow> 'id \<Rightarrow> Status \<Rightarrow> error option \<times> storage" where
  "UpdateStatus s partner msgID newStatus = (None, s)"

subsection \<open>Reading a page of messages\<close>

text \<open>
  A cursor is a position in the bucket's list. \<open>Last\<close> stands on the last entry,
  \<open>Seek\<close> on the first entry whose key is not below the sought one (past the end when
  there is none), \<open>Prev\<close> moves one entry back and yields a nil key at the front. The
  value under a cursor that stands on no entry is nil.
\<close>

definition cursor_Last :: "bucket \<Rightarrow> nat" where
  "cursor_Last b = length b - 1"

definition cursor_Seek :: "bucket \<Rightarrow> 64 word \<Rightarrow> nat" where
  "cursor_Seek b k = length (takeWhile (\<lambda>(k', v). k' < k) b)"

definition cursor_value :: "bucket \<Rightarrow> nat \<Rightarrow> bytes" where
  "cursor_value b pos = (if pos < length b then snd (b ! pos) else [])"

text \<open>
  The loop that walks backward: \<open>currentAmount\<close> more messages are wanted, \<open>pos\<close> is
  the cursor. It stops at the front of the bucket and fails at the first value that
  cannot be opened, keeping what it has collected.
\<close>

fun walk_back ::
  "storage_env \<Rightarrow> bucket \<Rightarrow> nat \<Rightarrow> nat \<Rightarrow> Message list \<Rightarrow> Message list \<times> error option" where
  "walk_back env b pos 0 messages = (messages, None)"
| "walk_back env b pos (Suc currentAmount) messages =
     (if pos = 0 then (messages, None)
      else (case decRawMsg env (cursor_value b (pos - 1)) of
              Inl err \<Rightarrow> (messages, Some err)
            | Inr msg \<Rightarrow> walk_back env b (pos - 1) currentAmount (messages @ [msg])))"

text \<open>
  \<open>sort.Slice\<close> with the comparison \<open>messages[i].DatabaseID < messages[j].DatabaseID\<close> on
  \<open>int64\<close>: a sort by the signed value of the database id.
\<close>

definition sort_by_DatabaseID :: "Message list \<Rightarrow> Message list" where
  "sort_by_DatabaseID messages = sort_key (\<lambda>m. sint (DatabaseID m)) messages"

definition Messages ::
  "storage_env \<Rightarrow> storage \<Rightarrow> bytes \<Rightarrow> 64 word \<Rightarrow> nat \<Rightarrow> Message list \<times> error option" where
  "Messages env s partner start amount =
     (if amount < 1 then ([], Some (Error ''invalid amount - must be at least one''))
      else
        (case private_chat s of
           None \<Rightarrow> ([], None)
         | Some privChatsBucket \<Rightarrow>
             (case privChatsBucket partner of
                None \<Rightarrow> ([], None)
              | Some partnerBucket \<Rightarrow>
                  (let pos = (if start = 0 then cursor_Last partnerBucket
                              else cursor_Seek partnerBucket start)
                   in case decRawMsg env (cursor_value partnerBucket pos) of
                        Inl err \<Rightarrow> ([], Some err)
                      | Inr msg \<Rightarrow>
                          (case walk_back env partnerBucket pos (amount - 1) [msg] of
                             (messages, err) \<Rightarrow> (sort_by_DatabaseID messages, err))))))"


section \<open>chat: accepting an initial message (chat/initial\_message.go)\<close>

text \<open>
  The fields of the chat package's \<open>Message\<close> that \<open>HandleInitialMessage\<close> reads: its
  type, the additional data (a \<open>map[string]string\<close>) and the \<open>DH\<close> key of the double
  ratchet header, a \<open>[32]byte\<close>. \<open>SecretFromRemote\<close> of the x3dh library is a parameter;
  the calls made to it are part of the result.
\<close>

record chat_Message =
  cm_Type :: string
  cm_AdditionalData :: "string \<rightharpoonup> string"
  cm_Header_DH :: bytes

record PreKeyBundlePrivate =
  bundle_OneTimePreKey :: bytes
  bundle_SignedPreKey :: bytes

record ProtocolInitialisation =
  RemoteIdKey :: bytes
  RemoteEphemeralKey :: bytes
  MyOneTimePreKey :: bytes
  MySignedPreKey :: bytes

definition HandleInitialMessage ::
  "(ProtocolInitialisation \<Rightarrow> error + bytes) \<Rightarrow> chat_Message \<Rightarrow> PreKeyBundlePrivate \<Rightarrow>
   (error + bytes) \<times> ProtocolInitialisation list" where
  "HandleInitialMessage SecretFromRemote m keyBundlePrivate =
     (if cm_Type m \<noteq> ''PROTOCOL_INITIALISATION''
      then (Inl (Error ''message must be of type PROTOCOL_INITIALISATION''), [])
      else
        (case cm_AdditionalData m ''ephemeral_key'' of
           None \<Rightarrow> (Inl (Error ''missing ephemeral_key''), [])
         | Some remoteEphemeralKeyStr \<Rightarrow>
             (case hex_DecodeString remoteEphemeralKeyStr of
                Inl err \<Rightarrow> (Inl err, [])
              | Inr remoteEphemeralKeyRaw \<Rightarrow>
                  (let init = \<lparr>RemoteIdKey = copy32 (cm_Header_DH m),
                               RemoteEphemeralKey = copy32 remoteEphemeralKeyRaw,
                               MyOneTimePreKey = bundle_OneTimePreKey keyBundlePrivate,
                               MySignedPreKey = bundle_SignedPreKey keyBundlePrivate\<rparr>
                   in (SecretFromRemote init, [init])))))"


section \<open>chat: sending a message (chat/send\_message.go)\<close>

record PreKey =
  prekey_PublicKey :: bytes
  prekey_Signature :: bytes

record InitializedProtocol =
  ip_SharedSecret :: bytes
  ip_UsedOneTimePreKey :: "bytes option"
  ip_UsedSignedPreKey :: bytes
  ip_EphemeralKey :: bytes

record SharedSecret =
  ss_X3dhSS :: bytes
  ss_Accepted :: bool
  ss_CreatedAt :: int
  ss_UsedOneTimePreKey :: "bytes option"
  ss_UsedSignedPreKey :: bytes
  ss_EphemeralKey :: bytes
  ss_EphemeralKeySignature :: bytes
  ss_BaseID :: bytes

record PlainChatMessage =
  pm_MessageID :: string
  pm_Message :: bytes
  pm_SharedSecretBaseID :: bytes
  pm_SharedSecretCreationDate :: int

record DoubleRatchedMsg =
  DoubleRatchetPK :: bytes
  drm_N :: nat
  drm_Pn :: nat
  CipherText :: bytes

record ChatMessage =
  cmsg_MessageID :: string
  cmsg_Receiver :: bytes
  cmsg_Message :: DoubleRatchedMsg
  cmsg_Sender :: bytes
  cmsg_OneTimePreKey :: bytes
  cmsg_SignedPreKey :: bytes
  cmsg_SenderChatIDKey :: bytes
  cmsg_SenderChatIDKeySignature :: bytes
  cmsg_EphemeralKey :: bytes
  cmsg_EphemeralKeySignature :: bytes

text \<open>
  The collaborators of \<open>SendMessage\<close>, each with the outcome of its call. The message
  database is reached through the \<open>ChatMessageStorage\<close> interface, so its
  \<open>UpdateStatus\<close> is a collaborator too; \<open>refreshSignedPreKey\<close>, \<open>GetSignedPreKey\<close> and
  \<open>UpdateStatus\<close> can be called more than once in one send, and take the number of
  earlier calls. A double ratchet session is its encryption function.
\<close>

record chat_env =
  sharedSecStorage_HasAny :: "bytes \<Rightarrow> error + bool"
  backend_FetchPreKeyBundle :: "bytes \<Rightarrow> error + bytes"
  x3dh_CalculateSecret :: "bytes \<Rightarrow> error + InitializedProtocol"
  km_IdentitySign :: "bytes \<Rightarrow> error + bytes"
  rand_Read :: "error + bytes"
  time_Now :: int
  sharedSecStorage_Put :: "bytes \<Rightarrow> SharedSecret \<Rightarrow> error option"
  sharedSecStorage_GetYoungest :: "bytes \<Rightarrow> error + SharedSecret"
  userStorage_HasSignedPreKey :: "bytes \<Rightarrow> error + bool"
  refreshSignedPreKey :: "nat \<Rightarrow> bytes \<Rightarrow> error option"
  userStorage_GetSignedPreKey :: "nat \<Rightarrow> bytes \<Rightarrow> error + PreKey"
  VerifySignature :: "PreKey \<Rightarrow> bytes \<Rightarrow> error + bool"
  OlderThan :: "PreKey \<Rightarrow> bool"
  dr_NewWithRemoteKey :: "bytes \<Rightarrow> bytes \<Rightarrow> error + (bytes \<Rightarrow> DoubleRatchedMsg)"
  proto_Marshal :: "PlainChatMessage \<Rightarrow> error + bytes"
  km_IdentityPublicKey :: "error + string"
  km_ChatIdKeyPair :: "error + KeyPair"
  backend_SubmitMessage :: "ChatMessage \<Rightarrow> error option"
  messageDB_UpdateStatus :: "nat \<Rightarrow> bytes \<Rightarrow> string \<Rightarrow> Status \<Rightarrow> error option"

text \<open>
  What a send leaves behind in the message database: the status updates it asked for,
  in order, each with the receiver and the message id.
\<close>

type_synonym status_writes = "(bytes \<times> string \<times> Status) list"

definition handleSendError ::
  "chat_env \<Rightarrow> bytes \<Rightarrow> string \<Rightarrow> status_writes \<Rightarrow> error \<Rightarrow> error \<times> status_writes" where
  "handleSendError env receiver msgID w err =
     (case messageDB_UpdateStatus env (length w) receiver msgID StatusFailedToSend of
        Some updateError \<Rightarrow>
          (Error (''failed to update status with error: '' @ err_Error updateError @
                  '' - original error: '' @ err_Error err),
           w @ [(receiver, msgID, StatusFailedToSend)])
      | None \<Rightarrow> (err, w @ [(receiver, msgID, StatusFailedToSend)]))"

text \<open>\<open>n\<close> counts the earlier calls of \<open>GetSignedPreKey\<close>.\<close>

definition fetchSignedPreKey ::
  "chat_env \<Rightarrow> bytes \<Rightarrow> string \<Rightarrow> nat \<Rightarrow> status_writes \<Rightarrow> bytes \<Rightarrow>
   (error \<times> status_writes) + PreKey" where
  "fetchSignedPreKey env receiver msgID n w userIDPubKey =
     (case userStorage_GetSignedPreKey env n receiver of
        Inl err \<Rightarrow> Inl (handleSendError env receiver msgID w err)
      | Inr signedPreKey \<Rightarrow>
          (case VerifySignature env signedPreKey userIDPubKey of
             Inl err \<Rightarrow> Inl (handleSendError env receiver msgID w err)
           | Inr validSignature \<Rightarrow>
               (if \<not> validSignature
                then Inl (handleSendError env receiver msgID w
                            (Error ''received invalid signature for pre key bundle''))
                else Inr signedPreKey)))"

text \<open>
  The block that creates a shared secret when there is none. \<open>Some\<close> is an early
  return of \<open>SendMessage\<close> with that error, \<open>None\<close> is falling through.
\<close>

definition createSharedSecret ::
  "chat_env \<Rightarrow> bytes \<Rightarrow> string \<Rightarrow> status_writes \<Rightarrow> (error \<times> status_writes) option" where
  "createSharedSecret env receiver msgID w =
     (case backend_FetchPreKeyBundle env receiver of
        Inl err \<Rightarrow> Some (handleSendError env receiver msgID w err)
      | Inr preKeyBundle \<Rightarrow>
          (case x3dh_CalculateSecret env preKeyBundle of
             Inl err \<Rightarrow> Some (handleSendError env receiver msgID w err)
           | Inr initializedProtocol \<Rightarrow>
               (case km_IdentitySign env (ip_EphemeralKey initializedProtocol) of
                  Inl err \<Rightarrow> Some (err, w)
                | Inr eks \<Rightarrow>
                    (case rand_Read env of
                       Inl err \<Rightarrow> Some (err, w)
                     | Inr ssBaseID \<Rightarrow>
                         (case sharedSecStorage_Put env receiver
                                 \<lparr>ss_X3dhSS = ip_SharedSecret initializedProtocol,
                                  ss_Accepted = False,
                                  ss_CreatedAt = time_Now env,
                                  ss_UsedOneTimePreKey = ip_UsedOneTimePreKey initializedProtocol,
                                  ss_UsedSignedPreKey = ip_UsedSignedPreKey initializedProtocol,
                                  ss_EphemeralKey = ip_EphemeralKey initializedProtocol,
                                  ss_EphemeralKeySignature = eks,
                                  ss_BaseID = ssBaseID\<rparr> of
                            Some err \<Rightarrow> Some (handleSendError env receiver msgID w err)
                          | None \<Rightarrow> None)))))"

text \<open>
  From \<open>HasSignedPreKey\<close> to the signed pre-key that is used: refresh when there is
  none, fetch, refresh and fetch again when it has expired. An error that comes out of
  \<open>fetchSignedPreKey\<close> has been through \<open>handleSendError\<close> there and goes through it
  again here.
\<close>

definition currentSignedPreKey ::
  "chat_env \<Rightarrow> bytes \<Rightarrow> string \<Rightarrow> status_writes \<Rightarrow> (error \<times> status_writes) + PreKey" where
  "currentSignedPreKey env receiver msgID w =
     (case userStorage_HasSignedPreKey env receiver of
        Inl err \<Rightarrow> Inl (handleSendError env receiver msgID w err)
      | Inr hasSignedPreKey \<Rightarrow>
          (case (if \<not> hasSignedPreKey then refreshSignedPreKey env 0 receiver else None) of
             Some err \<Rightarrow> Inl (handleSendError env receiver msgID w err)
           | None \<Rightarrow>
               (case fetchSignedPreKey env receiver msgID 0 w receiver of
                  Inl (err, w1) \<Rightarrow> Inl (handleSendError env receiver msgID w1 err)
                | Inr signedPreKey \<Rightarrow>
                    (if OlderThan env signedPreKey
                     then
                       (case refreshSignedPreKey env (if hasSignedPreKey then 0 else 1) receiver of
                          Some err \<Rightarrow> Inl (handleSendError env receiver msgID w err)
                        | None \<Rightarrow>
                            (case fetchSignedPreKey env receiver msgID 1 w receiver of
                               Inl (err, w1) \<Rightarrow> Inl (handleSendError env receiver msgID w1 err)
                             | Inr signedPreKey' \<Rightarrow> Inr signedPreKey'))
                     else Inr signedPreKey))))"

definition validX3dhPub :: "bytes \<Rightarrow> error option" where
  "validX3dhPub pub =
     (if pub = replicate 32 0
      then Some (Error ''got invalid x3dh public key - seems to be empty'')
      else if length pub \<noteq> 32
      then Some (Error ''got invalid x3dh public key - length MUST be 32'')
      else None)"

text \<open>
  The block that attaches the handshake data to a message sent under a secret that
  has not been accepted yet. Its errors are returned as they are.
\<close>

definition attachHandshake :: "chat_env \<Rightarrow> SharedSecret \<Rightarrow> ChatMessage \<Rightarrow> error + ChatMessage" where
  "attachHandshake env ss msgToSend =
     (case (case ss_UsedOneTimePreKey ss of None \<Rightarrow> None | Some otp \<Rightarrow> validX3dhPub otp) of
        Some err \<Rightarrow> Inl err
      | None \<Rightarrow>
          (case validX3dhPub (ss_UsedSignedPreKey ss) of
             Some err \<Rightarrow> Inl err
           | None \<Rightarrow>
               (case validX3dhPub (ss_EphemeralKey ss) of
                  Some err \<Rightarrow> Inl err
                | None \<Rightarrow>
                    (case km_ChatIdKeyPair env of
                       Inl err \<Rightarrow> Inl err
                     | Inr chatIDKeyPair \<Rightarrow>
                         (case km_IdentitySign env (PublicKey chatIDKeyPair) of
                            Inl err \<Rightarrow> Inl err
                          | Inr chatIDKeySignature \<Rightarrow>
                              Inr (msgToSend
                                \<lparr>cmsg_OneTimePreKey :=
                                   (case ss_UsedOneTimePreKey ss of None \<Rightarrow> [] | Some otp \<Rightarrow> otp),
                                 cmsg_SignedPreKey := ss_UsedSignedPreKey ss,
                                 cmsg_SenderChatIDKey := PublicKey chatIDKeyPair,
                                 cmsg_SenderChatIDKeySignature := chatIDKeySignature,
                                 cmsg_EphemeralKey := ss_EphemeralKey ss,
                                 cmsg_EphemeralKeySignature := ss_EphemeralKeySignature ss\<rparr>))))))"

text \<open>
  The second half of \<open>SendMessage\<close>, from the shared secret and the signed pre-key to
  the final status update.
\<close>

definition encryptAndSubmit ::
  "chat_env \<Rightarrow> bytes \<Rightarrow> PlainChatMessage \<Rightarrow> SharedSecret \<Rightarrow> PreKey \<Rightarrow> status_writes \<Rightarrow>
   error option \<times> status_writes" where
  "encryptAndSubmit env receiver msg0 ss signedPreKey w =
     (let msgID = pm_MessageID msg0;
          fail = (\<lambda>err. case handleSendError env receiver msgID w err of (e, w') \<Rightarrow> (Some e, w'))
      in
      if \<not> ss_Accepted ss \<and> length (ss_BaseID ss) \<noteq> 32
      then fail (Error ''base it is invalid - must have 32 bytes'')
      else
        (let msg = (if \<not> ss_Accepted ss
                    then msg0\<lparr>pm_SharedSecretBaseID := ss_BaseID ss,
                              pm_SharedSecretCreationDate := ss_CreatedAt ss\<rparr>
                    else msg0)
         in case dr_NewWithRemoteKey env (copy32 (ss_X3dhSS ss))
                   (copy32 (prekey_PublicKey signedPreKey)) of
              Inl err \<Rightarrow> fail err
            | Inr RatchetEncrypt \<Rightarrow>
                (case proto_Marshal env msg of
                   Inl err \<Rightarrow> fail err
                 | Inr rawPlainMessage \<Rightarrow>
                     (case km_IdentityPublicKey env of
                        Inl err \<Rightarrow> fail err
                      | Inr senderIdPubStr \<Rightarrow>
                          (case hex_DecodeString senderIdPubStr of
                             Inl err \<Rightarrow> fail err
                           | Inr sender \<Rightarrow>
                               (let msgToSend =
                                      \<lparr>cmsg_MessageID = pm_MessageID msg,
                                       cmsg_Receiver = receiver,
                                       cmsg_Message = RatchetEncrypt rawPlainMessage,
                                       cmsg_Sender = sender,
                                       cmsg_OneTimePreKey = [],
                                       cmsg_SignedPreKey = [],
                                       cmsg_SenderChatIDKey = [],
                                       cmsg_SenderChatIDKeySignature = [],
                                       cmsg_EphemeralKey = [],
                                       cmsg_EphemeralKeySignature = []\<rparr>
                                in case (if \<not> ss_Accepted ss then attachHandshake env ss msgToSend
                                         else Inr msgToSend) of
                                     Inl err \<Rightarrow> (Some err, w)
                                   | Inr msgToSend' \<Rightarrow>
                                       (case backend_SubmitMessage env msgToSend' of
                                          Some err \<Rightarrow> fail err
                                        | None \<Rightarrow>
                                            (messageDB_UpdateStatus env (length w) receiver msgID
                                               StatusSent,
                                             w @ [(receiver, msgID, StatusSent)]))))))))"

definition SendMessage ::
  "chat_env \<Rightarrow> bytes \<Rightarrow> PlainChatMessage \<Rightarrow> status_writes \<Rightarrow> error option \<times> status_writes" where
  "SendMessage env receiver msg w =
     (let msgID = pm_MessageID msg;
          fail = (\<lambda>err. case handleSendError env receiver msgID w err of (e, w') \<Rightarrow> (Some e, w'))
      in
      case sharedSecStorage_HasAny env receiver of
        Inl err \<Rightarrow> fail err
      | Inr exist \<Rightarrow>
          (case (if \<not> exist then createSharedSecret env receiver msgID w else None) of
             Some (err, w') \<Rightarrow> (Some err, w')
           | None \<Rightarrow>
               (case sharedSecStorage_GetYoungest env receiver of
                  Inl err \<Rightarrow> fail err
                | Inr ss \<Rightarrow>
                    (case currentSignedPreKey env receiver msgID w of
                       Inl (err, w') \<Rightarrow> (Some err, w')
                     | Inr signedPreKey \<Rightarrow>
                         encryptAndSubmit env receiver msg ss signedPreKey w))))"


section \<open>panthalassa: the exported API over the process-wide instance\<close>

text \<open>
  The package keeps one global, \<open>panthalassaInstance\<close>, nil until \<open>start\<close> has built an
  instance. The world of the model is that global together with the list of the
  actions taken on collaborators (constructors called, key manager, device API, DApp
  registry and storage reached through the instance), so that "nothing was done" is a
  property of the world. Decoding an argument is not an action.
\<close>

record Panthalassa =
  inst_km :: string
  inst_db :: string

record world =
  panthalassaInstance :: "Panthalassa option"
  actions :: "string list"

record StartConfig =
  EncryptedKeyManager :: string
  EnableDebugging :: bool
  PrivChatEndpoint :: string

record api_deps =
  json_Unmarshal_config :: "string \<Rightarrow> error + StartConfig"
  UnmarshalStore :: "string \<Rightarrow> error + string"
  OpenWithPassword :: "string \<Rightarrow> string \<Rightarrow> error + string"
  OpenWithMnemonic :: "string \<Rightarrow> string \<Rightarrow> error + string"
  p2p_New :: "error option"
  KMToDBPath :: "string \<Rightarrow> string \<Rightarrow> error + string"
  db_Open :: "string \<Rightarrow> error option"
  NewBackend :: "error option"
  NewChat :: "error option"
  NewDAppRegistry :: "error option"
  GetEthereumPrivateKey :: "Panthalassa \<Rightarrow> error + string"
  GetEthereumAddress :: "Panthalassa \<Rightarrow> error + string"
  base64_DecodeString :: "string \<Rightarrow> error + bytes"
  proto_Unmarshal :: "bytes \<Rightarrow> error + pb_Response"
  api_Respond :: "Panthalassa \<Rightarrow> string \<Rightarrow> pb_Response \<Rightarrow> error option \<Rightarrow> int \<Rightarrow> error option"
  instance_Export :: "Panthalassa \<Rightarrow> string \<Rightarrow> string \<Rightarrow> error + string"
  km_IdentityPublicKey_of :: "Panthalassa \<Rightarrow> error + string"
  km_GetMnemonic :: "Panthalassa \<Rightarrow> string"
  profile_SignProfile :: "Panthalassa \<Rightarrow> string \<Rightarrow> string \<Rightarrow> string \<Rightarrow> error + string"
  instance_Stop :: "Panthalassa \<Rightarrow> error option"
  ma_NewMultiaddr :: "string \<Rightarrow> error + string"
  ConnectDevelopmentServer :: "Panthalassa \<Rightarrow> string \<Rightarrow> error option"
  dAppReg_OpenDApp :: "Panthalassa \<Rightarrow> bytes \<Rightarrow> string \<Rightarrow> error option"
  dAppReg_StartDApp :: "Panthalassa \<Rightarrow> bytes \<Rightarrow> int \<Rightarrow> error option"
  dAppReg_RenderMessage :: "Panthalassa \<Rightarrow> bytes \<Rightarrow> string \<Rightarrow> error + string"
  dAppReg_CallFunction :: "Panthalassa \<Rightarrow> bytes \<Rightarrow> nat \<Rightarrow> string \<Rightarrow> error option"
  dAppReg_ShutDown :: "Panthalassa \<Rightarrow> bytes \<Rightarrow> error option"
  dAppStorage_All :: "Panthalassa \<Rightarrow> error + string"

definition act :: "string \<Rightarrow> world \<Rightarrow> world" where
  "act a w = w\<lparr>actions := actions w @ [a]\<rparr>"

definition start :: "api_deps \<Rightarrow> string \<Rightarrow> string \<Rightarrow> StartConfig \<Rightarrow> world \<Rightarrow> error option \<times> world" where
  "start deps dbDir km config w =
     (let w1 = (if EnableDebugging config then act ''log.SetDebugLogging'' w else w) in
      if panthalassaInstance w1 \<noteq> None
      then (Some (Error ''call stop first in order to create a new panthalassa instance''), w1)
      else
        (let w2 = act ''p2p.New'' (act ''api.New'' w1) in
         case p2p_New deps of
           Some err \<Rightarrow> (Some err, w2)
         | None \<Rightarrow>
             (case KMToDBPath deps dbDir km of
                Inl err \<Rightarrow> (Some err, w2)
              | Inr dbPath \<Rightarrow>
                  (let w3 = act ''db.Open'' w2 in
                   case db_Open deps dbPath of
                     Some err \<Rightarrow> (Some err, w3)
                   | None \<Rightarrow>
                       (let w4 = act ''backend.NewBackend'' w3 in
                        case NewBackend deps of
                          Some err \<Rightarrow> (Some err, w4)
                        | None \<Rightarrow>
                            (let w5 = act ''chat.NewChat'' w4 in
                             case NewChat deps of
                               Some err \<Rightarrow> (Some err, w5)
                             | None \<Rightarrow>
                                 (let w6 = act ''dAppReg.NewDAppRegistry'' w5 in
                                  case NewDAppRegistry deps of
                                    Some err \<Rightarrow> (Some err, w6)
                                  | None \<Rightarrow>
                                      (None,
                                       w6\<lparr>panthalassaInstance :=
                                            Some \<lparr>inst_km = km, inst_db = dbPath\<rparr>\<rparr>))))))))"

definition Start :: "api_deps \<Rightarrow> string \<Rightarrow> string \<Rightarrow> string \<Rightarrow> world \<Rightarrow> error option \<times> world" where
  "Start deps dbDir config password w =
     (case json_Unmarshal_config deps config of
        Inl err \<Rightarrow> (Some err, w)
      | Inr c \<Rightarrow>
          (case UnmarshalStore deps (EncryptedKeyManager c) of
             Inl err \<Rightarrow> (Some err, w)
           | Inr store \<Rightarrow>
               (case OpenWithPassword deps store password of
                  Inl err \<Rightarrow> (Some err, w)
                | Inr km \<Rightarrow> start deps dbDir km c w)))"

definition StartFromMnemonic ::
  "api_deps \<Rightarrow> string \<Rightarrow> string \<Rightarrow> string \<Rightarrow> world \<Rightarrow> error option \<times> world" where
  "StartFromMnemonic deps dbDir config mnemonic w =
     (case json_Unmarshal_config deps config of
        Inl err \<Rightarrow> (Some err, w)
      | Inr c \<Rightarrow>
          (case UnmarshalStore deps (EncryptedKeyManager c) of
             Inl err \<Rightarrow> (Some err, w)
           | Inr store \<Rightarrow>
               (case OpenWithMnemonic deps store mnemonic of
                  Inl err \<Rightarrow> (Some err, w)
                | Inr km \<Rightarrow> start deps dbDir km c w)))"

definition EthPrivateKey :: "api_deps \<Rightarrow> world \<Rightarrow> (error + string) \<times> world" where
  "EthPrivateKey deps w =
     (case panthalassaInstance w of
        None \<Rightarrow> (Inl (Error ''you have to start panthalassa''), w)
      | Some inst \<Rightarrow> (GetEthereumPrivateKey deps inst, act ''km.GetEthereumPrivateKey'' w))"

definition EthAddress :: "api_deps \<Rightarrow> world \<Rightarrow> (error + string) \<times> world" where
  "EthAddress deps w =
     (case panthalassaInstance w of
        None \<Rightarrow> (Inl (Error ''you have to start panthalassa''), w)
      | Some inst \<Rightarrow> (GetEthereumAddress deps inst, act ''km.GetEthereumAddress'' w))"

definition SendResponse ::
  "api_deps \<Rightarrow> string \<Rightarrow> string \<Rightarrow> string \<Rightarrow> int \<Rightarrow> world \<Rightarrow> error option \<times> world" where
  "SendResponse deps id' data responseError timeout w =
     (case panthalassaInstance w of
        None \<Rightarrow> (Some (Error ''you have to start panthalassa''), w)
      | Some inst \<Rightarrow>
          (case base64_DecodeString deps data of
             Inl decodingError \<Rightarrow> (Some decodingError, w)
           | Inr dataBytes \<Rightarrow>
               (case proto_Unmarshal deps dataBytes of
                  Inl err \<Rightarrow> (Some err, w)
                | Inr resp \<Rightarrow>
                    (api_Respond deps inst id' resp
                       (if responseError \<noteq> [] then Some (Error responseError) else None) timeout,
                     act ''api.Respond'' w))))"

definition ExportAccountStore :: "api_deps \<Rightarrow> string \<Rightarrow> string \<Rightarrow> world \<Rightarrow> (error + string) \<times> world" where
  "ExportAccountStore deps pw pwConfirm w =
     (case panthalassaInstance w of
        None \<Rightarrow> (Inl (Error ''you have to start panthalassa''), w)
      | Some inst \<Rightarrow> (instance_Export deps inst pw pwConfirm, act ''Export'' w))"

definition IdentityPublicKey :: "api_deps \<Rightarrow> world \<Rightarrow> (error + string) \<times> world" where
  "IdentityPublicKey deps w =
     (case panthalassaInstance w of
        None \<Rightarrow> (Inl (Error ''you have to start panthalassa''), w)
      | Some inst \<Rightarrow> (km_IdentityPublicKey_of deps inst, act ''km.IdentityPublicKey'' w))"

definition GetMnemonic :: "api_deps \<Rightarrow> world \<Rightarrow> (error + string) \<times> world" where
  "GetMnemonic deps w =
     (case panthalassaInstance w of
        None \<Rightarrow> (Inl (Error ''you have to start panthalassa''), w)
      | Some inst \<Rightarrow> (Inr (km_GetMnemonic deps inst), act ''km.GetMnemonic'' w))"

definition SignProfile ::
  "api_deps \<Rightarrow> string \<Rightarrow> string \<Rightarrow> string \<Rightarrow> world \<Rightarrow> (error + string) \<times> world" where
  "SignProfile deps name location img w =
     (case panthalassaInstance w of
        None \<Rightarrow> (Inl (Error ''you have to start panthalassa''), w)
      | Some inst \<Rightarrow>
          (profile_SignProfile deps inst name location img, act ''profile.SignProfile'' w))"

definition Stop :: "api_deps \<Rightarrow> world \<Rightarrow> error option \<times> world" where
  "Stop deps w =
     (case panthalassaInstance w of
        None \<Rightarrow> (Some (Error ''you have to start panthalassa in order to stop it''), w)
      | Some inst \<Rightarrow>
          (case instance_Stop deps inst of
             Some err \<Rightarrow> (Some err, (act ''Stop'' w)\<lparr>panthalassaInstance := None\<rparr>)
           | None \<Rightarrow> (None, (act ''Stop'' w)\<lparr>panthalassaInstance := None\<rparr>)))"

definition GetIdentityPublicKey :: "api_deps \<Rightarrow> world \<Rightarrow> (error + string) \<times> world" where
  "GetIdentityPublicKey deps w =
     (case panthalassaInstance w of
        None \<Rightarrow> (Inl (Error ''you have to start panthalassa first''), w)
      | Some inst \<Rightarrow> (km_IdentityPublicKey_of deps inst, act ''km.IdentityPublicKey'' w))"

definition ConnectToDAppDevHost :: "api_deps \<Rightarrow> string \<Rightarrow> world \<Rightarrow> error option \<times> world" where
  "ConnectToDAppDevHost deps address w =
     (case panthalassaInstance w of
        None \<Rightarrow> (Some (Error ''you have to start panthalassa first''), w)
      | Some inst \<Rightarrow>
          (case ma_NewMultiaddr deps address of
             Inl err \<Rightarrow> (Some err, w)
           | Inr maAddr \<Rightarrow>
               (ConnectDevelopmentServer deps inst maAddr,
                act ''dAppReg.ConnectDevelopmentServer'' w)))"

definition OpenDApp :: "api_deps \<Rightarrow> string \<Rightarrow> string \<Rightarrow> world \<Rightarrow> error option \<times> world" where
  "OpenDApp deps id' context w =
     (case panthalassaInstance w of
        None \<Rightarrow> (Some (Error ''you have to start panthalassa first''), w)
      | Some inst \<Rightarrow>
          (case hex_DecodeString id' of
             Inl err \<Rightarrow> (Some err, w)
           | Inr dAppSigningKey \<Rightarrow>
               (if length dAppSigningKey \<noteq> 32
                then (Some (Error ''invalid DApp signing key''), w)
                else (dAppReg_OpenDApp deps inst dAppSigningKey context,
                      act ''dAppReg.OpenDApp'' w))))"

definition StartDApp :: "api_deps \<Rightarrow> string \<Rightarrow> int \<Rightarrow> world \<Rightarrow> error option \<times> world" where
  "StartDApp deps dAppSingingKeyStr timeout w =
     (case panthalassaInstance w of
        None \<Rightarrow> (Some (Error ''you have to start panthalassa first''), w)
      | Some inst \<Rightarrow>
          (case hex_DecodeString dAppSingingKeyStr of
             Inl err \<Rightarrow> (Some err, w)
           | Inr dAppSigningKey \<Rightarrow>
               (if length dAppSigningKey \<noteq> 32
                then (Some (Error ''DApp singing key must be 32 bytes long''), w)
                else (dAppReg_StartDApp deps inst dAppSigningKey timeout,
                      act ''dAppReg.StartDApp'' w))))"

definition RenderMessage :: "api_deps \<Rightarrow> string \<Rightarrow> string \<Rightarrow> world \<Rightarrow> (error + string) \<times> world" where
  "RenderMessage deps signingKey payload w =
     (case panthalassaInstance w of
        None \<Rightarrow> (Inl (Error ''you have to start panthalassa first''), w)
      | Some inst \<Rightarrow>
          (case hex_DecodeString signingKey of
             Inl err \<Rightarrow> (Inl err, w)
           | Inr dAppSigningKey \<Rightarrow>
               (if length dAppSigningKey \<noteq> 32
                then (Inl (Error ''dapp signign key must be 32 bytes long''), w)
                else (dAppReg_RenderMessage deps inst dAppSigningKey payload,
                      act ''dAppReg.RenderMessage'' w))))"

definition CallDAppFunction :: "api_deps \<Rightarrow> string \<Rightarrow> int \<Rightarrow> string \<Rightarrow> world \<Rightarrow> error option \<times> world" where
  "CallDAppFunction deps signingKey id' args w =
     (if id' < 0 then (Some (Error ''got negative number but need uint''), w)
      else
        (case panthalassaInstance w of
           None \<Rightarrow> (Some (Error ''you have to start panthalassa first''), w)
         | Some inst \<Rightarrow>
             (case hex_DecodeString signingKey of
                Inl err \<Rightarrow> (Some err, w)
              | Inr dAppSigningKey \<Rightarrow>
                  (if length dAppSigningKey \<noteq> 32
                   then (Some (Error ''dapp signign key must be 32 bytes long''), w)
                   else (dAppReg_CallFunction deps inst dAppSigningKey (nat id') args,
                         act ''dAppReg.CallFunction'' w)))))"

definition StopDApp :: "api_deps \<Rightarrow> string \<Rightarrow> world \<Rightarrow> error option \<times> world" where
  "StopDApp deps dAppSingingKeyStr w =
     (case panthalassaInstance w of
        None \<Rightarrow> (Some (Error ''you have to start panthalassa first''), w)
      | Some inst \<Rightarrow>
          (case hex_DecodeString dAppSingingKeyStr of
             Inl err \<Rightarrow> (Some err, w)
           | Inr dAppSigningKey \<Rightarrow>
               (if length dAppSigningKey \<noteq> 32
                then (Some (Error ''DApp singing key must be 32 bytes long''), w)
                else (dAppReg_ShutDown deps inst dAppSigningKey,
                      act ''dAppReg.ShutDown'' w))))"

definition DApps :: "api_deps \<Rightarrow> world \<Rightarrow> (error + string) \<times> world" where
  "DApps deps w =
     (case panthalassaInstance w of
        None \<Rightarrow> (Inl (Error ''you have to start panthalassa first''), w)
      | Some inst \<Rightarrow> (dAppStorage_All deps inst, act ''dAppStorage.All'' w))"


section \<open>Example inputs\<close>

text \<open>
  A storage environment whose stored values are a message's database id (one byte)
  followed by its text, and a storage with three messages of one partner.
\<close>

definition example_decRawMsg :: "bytes \<Rightarrow> error + Message" where
  "example_decRawMsg raw =
     (case raw of
        [] \<Rightarrow> Inl (Error ''unexpected end of JSON input'')
      | b # rest \<Rightarrow>
          Inr \<lparr>ID = ''m'', Version = 1, Status = 500, Received = True, DApp = None,
               Message = rest, CreatedAt = ucast b, Sender = [], DatabaseID = ucast b\<rparr>)"

definition example_storage_env :: storage_env where
  "example_storage_env =
     \<lparr>seal = (\<lambda>m. Inr (ucast (DatabaseID m) # Message m)),
      decRawMsg = example_decRawMsg,
      tx_commit = None\<rparr>"

definition example_storage :: storage where
  "example_storage =
     \<lparr>private_chat = Some [[1] \<mapsto> [(5, [5, 104]), (6, [6, 105]), (9, [9, 106])]],
      events = []\<rparr>"


text \<open>Collaborators of the pre-key handler that never fail.\<close>

definition example_handler_env :: handler_env where
  "example_handler_env =
     \<lparr>GenerateKeyPair = (\<lambda>i. Inr \<lparr>PublicKey = [word_of_nat i], PrivateKey = [word_of_nat i + 100]\<rparr>),
      oneTimePreKeyStorage_Put = (\<lambda>kps. None),
      pk_Sign = (\<lambda>k. Inr (k @ [1])),
      pk_ToProtobuf = (\<lambda>x. Inr \<lparr>pk_Key = fst x, pk_IdentityKeySignature = snd x\<rparr>)\<rparr>"


text \<open>
  A \<open>SecretFromRemote\<close> that derives a secret from any keys (the curve operation has
  no failing input), an initial message whose header carries no remote key, and a
  private pre-key bundle.
\<close>

definition example_SecretFromRemote :: "ProtocolInitialisation \<Rightarrow> error + bytes" where
  "example_SecretFromRemote init = Inr (replicate 32 7)"

definition example_initial_message :: chat_Message where
  "example_initial_message =
     \<lparr>cm_Type = ''PROTOCOL_INITIALISATION'',
      cm_AdditionalData = [''ephemeral_key'' \<mapsto> ''0a1B''],
      cm_Header_DH = zero_key\<rparr>"

definition example_bundle :: PreKeyBundlePrivate where
  "example_bundle = \<lparr>bundle_OneTimePreKey = [1], bundle_SignedPreKey = [2]\<rparr>"


text \<open>A received message stamped with the smallest timestamp that \<open>ValidMessage\<close> accepts.\<close>

definition example_received :: "bytes \<Rightarrow> Message" where
  "example_received text =
     \<lparr>ID = ''id'', Version = 0, Status = 0, Received = False, DApp = None,
      Message = text, CreatedAt = 2147483648, Sender = replicate 32 1, DatabaseID = 0\<rparr>"

text \<open>
  A backend with the two chat handlers registered, and a request that asks for two
  one-time pre-keys and carries one chat message.
\<close>

definition example_preKeyHandler :: RequestHandler where
  "example_preKeyHandler req =
     (case oneTimePreKeysHandler example_handler_env req [] of
        Some (r, puts) \<Rightarrow> r
      | None \<Rightarrow> (None, None))"

definition example_backend :: Backend where
  "example_backend =
     \<lparr>stack = Map.empty, requestHandler = [messagesHandler, example_preKeyHandler],
      authenticated = True, sent = [], invoked = [], delivered = []\<rparr>"

definition example_request :: BackendMessage where
  "example_request =
     \<lparr>bm_RequestID = ''42'',
      bm_Request = Some \<lparr>req_Messages = [[1]], req_NewOneTimePreKeys = 2\<rparr>,
      bm_Response = None, bm_Error = []\<rparr>"

text \<open>
  Collaborators of \<open>SendMessage\<close> that all succeed, for a receiver without a shared
  secret, and a message to send.
\<close>

definition example_chat_env :: chat_env where
  "example_chat_env =
     \<lparr>sharedSecStorage_HasAny = (\<lambda>receiver. Inr False),
      backend_FetchPreKeyBundle = (\<lambda>receiver. Inr [9]),
      x3dh_CalculateSecret =
        (\<lambda>bundle. Inr \<lparr>ip_SharedSecret = replicate 32 3, ip_UsedOneTimePreKey = None,
                         ip_UsedSignedPreKey = replicate 32 4,
                         ip_EphemeralKey = replicate 32 5\<rparr>),
      km_IdentitySign = (\<lambda>data. Inr [6]),
      rand_Read = Inr (replicate 32 8),
      time_Now = 1,
      sharedSecStorage_Put = (\<lambda>receiver ss. None),
      sharedSecStorage_GetYoungest =
        (\<lambda>receiver. Inr \<lparr>ss_X3dhSS = replicate 32 3, ss_Accepted = False, ss_CreatedAt = 1,
                           ss_UsedOneTimePreKey = None, ss_UsedSignedPreKey = replicate 32 4,
                           ss_EphemeralKey = replicate 32 5, ss_EphemeralKeySignature = [6],
                           ss_BaseID = replicate 32 8\<rparr>),
      userStorage_HasSignedPreKey = (\<lambda>receiver. Inr True),
      refreshSignedPreKey = (\<lambda>n receiver. None),
      userStorage_GetSignedPreKey =
        (\<lambda>n receiver. Inr \<lparr>prekey_PublicKey = replicate 32 4, prekey_Signature = [7]\<rparr>),
      VerifySignature = (\<lambda>signedPreKey key. Inr True),
      OlderThan = (\<lambda>signedPreKey. False),
      dr_NewWithRemoteKey =
        (\<lambda>ss rk. Inr (\<lambda>plain. \<lparr>DoubleRatchetPK = rk, drm_N = 0, drm_Pn = 0,
                                    CipherText = plain\<rparr>)),
      proto_Marshal = (\<lambda>msg. Inr (pm_Message msg)),
      km_IdentityPublicKey = Inr ''0a1B'',
      km_ChatIdKeyPair = Inr \<lparr>PublicKey = replicate 32 2, PrivateKey = []\<rparr>,
      backend_SubmitMessage = (\<lambda>msg. None),
      messageDB_UpdateStatus = (\<lambda>n receiver msgID status. None)\<rparr>"

definition example_plain_message :: PlainChatMessage where
  "example_plain_message =
     \<lparr>pm_MessageID = ''m1'', pm_Message = [104, 105], pm_SharedSecretBaseID = [],
      pm_SharedSecretCreationDate = 0\<rparr>"

text \<open>A device whose answer to a key request carries no \<open>DRKeyStoreGet\<close> sub-message.\<close>

definition example_api_env :: api_env where
  "example_api_env =
     \<lparr>api_request = (\<lambda>req. Inr \<lparr>Msg = \<lparr>DRKeyStoreGet = None\<rparr>\<rparr>),
      aes_Unmarshal = (\<lambda>raw. Inr raw),
      AESDecrypt = (\<lambda>ct. Inr ct)\<rparr>"


section \<open>Theorems\<close>

subsection \<open>The client key store's stubs\<close>

text \<open>
  Claim C9. For every key and every state of the store (any environment, any list of
  calls issued so far), \<open>Count\<close> of the client-package key store returns 9 and
  \<open>DeletePk\<close> returns; neither issues a request to the device API: the list of issued
  calls is left as it was.
\<close>

theorem client_key_store_Count_DeletePk_stub:
  "DoubleRatchetKeyStore_Count env st k = (9, st) \<and>
   DoubleRatchetKeyStore_DeletePk env st k = st"
  by (simp add: DoubleRatchetKeyStore_Count_def DoubleRatchetKeyStore_DeletePk_def)

subsection \<open>The exported API and the process-wide instance\<close>

lemma start_existing:
  "panthalassaInstance w = Some inst \<Longrightarrow>
   (\<exists>e. fst (start deps dbDir km config w) = Some e) \<and>
   panthalassaInstance (snd (start deps dbDir km config w)) = Some inst"
  by (simp add: start_def act_def Let_def)

lemma start_fresh:
  "panthalassaInstance w = None \<Longrightarrow>
   (fst (start deps dbDir km config w) = None) =
   (panthalassaInstance (snd (start deps dbDir km config w)) \<noteq> None)"
  by (auto simp add: start_def act_def Let_def split: if_splits option.splits sum.splits)

text \<open>
  Claim C10. While no instance has been started (the global is nil), every exported
  API function that works on the instance returns an error and leaves the world as it
  was: no collaborator is reached and the global stays nil; and \<open>start\<close> then ends with
  an instance exactly when it reports no error. While an instance exists, \<open>start\<close>
  (and with it \<open>Start\<close> and \<open>StartFromMnemonic\<close>) returns an error and leaves that
  instance in place. So a new instance is only ever stored over nil.
\<close>

theorem exported_api_needs_started_instance:
  "(panthalassaInstance w = None \<longrightarrow>
      (\<exists>e. EthPrivateKey deps w = (Inl e, w)) \<and>
      (\<exists>e. EthAddress deps w = (Inl e, w)) \<and>
      (\<exists>e. SendResponse deps rid data responseError timeout w = (Some e, w)) \<and>
      (\<exists>e. ExportAccountStore deps pw pwConfirm w = (Inl e, w)) \<and>
      (\<exists>e. IdentityPublicKey deps w = (Inl e, w)) \<and>
      (\<exists>e. GetMnemonic deps w = (Inl e, w)) \<and>
      (\<exists>e. SignProfile deps name location img w = (Inl e, w)) \<and>
      (\<exists>e. Stop deps w = (Some e, w)) \<and>
      (\<exists>e. GetIdentityPublicKey deps w = (Inl e, w)) \<and>
      (\<exists>e. ConnectToDAppDevHost deps address w = (Some e, w)) \<and>
      (\<exists>e. OpenDApp deps key context w = (Some e, w)) \<and>
      (\<exists>e. StartDApp deps key timeout w = (Some e, w)) \<and>
      (\<exists>e. RenderMessage deps key payload w = (Inl e, w)) \<and>
      (\<exists>e. CallDAppFunction deps key fid args w = (Some e, w)) \<and>
      (\<exists>e. StopDApp deps key w = (Some e, w)) \<and>
      (\<exists>e. DApps deps w = (Inl e, w)) \<and>
      (fst (start deps dbDir km config w) = None) =
        (panthalassaInstance (snd (start deps dbDir km config w)) \<noteq> None)) \<and>
   (panthalassaInstance w = Some inst \<longrightarrow>
      (\<exists>e. fst (start deps dbDir km config w) = Some e) \<and>
      panthalassaInstance (snd (start deps dbDir km config w)) = Some inst \<and>
      (\<exists>e. fst (Start deps dbDir cfg password w) = Some e) \<and>
      panthalassaInstance (snd (Start deps dbDir cfg password w)) = Some inst \<and>
      (\<exists>e. fst (StartFromMnemonic deps dbDir cfg mnemonic w) = Some e) \<and>
      panthalassaInstance (snd (StartFromMnemonic deps dbDir cfg mnemonic w)) = Some inst)"
proof (intro conjI impI)
  assume n: "panthalassaInstance w = None"
  show "\<exists>e. EthPrivateKey deps w = (Inl e, w)" using n by (simp add: EthPrivateKey_def)
  show "\<exists>e. EthAddress deps w = (Inl e, w)" using n by (simp add: EthAddress_def)
  show "\<exists>e. SendResponse deps rid data responseError timeout w = (Some e, w)"
    using n by (simp add: SendResponse_def)
  show "\<exists>e. ExportAccountStore deps pw pwConfirm w = (Inl e, w)"
    using n by (simp add: ExportAccountStore_def)
  show "\<exists>e. IdentityPublicKey deps w = (Inl e, w)" using n by (simp add: IdentityPublicKey_def)
  show "\<exists>e. GetMnemonic deps w = (Inl e, w)" using n by (simp add: GetMnemonic_def)
  show "\<exists>e. SignProfile deps name location img w = (Inl e, w)"
    using n by (simp add: SignProfile_def)
  show "\<exists>e. Stop deps w = (Some e, w)" using n by (simp add: Stop_def)
  show "\<exists>e. GetIdentityPublicKey deps w = (Inl e, w)"
    using n by (simp add: GetIdentityPublicKey_def)
  show "\<exists>e. ConnectToDAppDevHost deps address w = (Some e, w)"
    using n by (simp add: ConnectToDAppDevHost_def)
  show "\<exists>e. OpenDApp deps key context w = (Some e, w)" using n by (simp add: OpenDApp_def)
  show "\<exists>e. StartDApp deps key timeout w = (Some e, w)" using n by (simp add: StartDApp_def)
  show "\<exists>e. RenderMessage deps key payload w = (Inl e, w)"
    using n by (simp add: RenderMessage_def)
  show "\<exists>e. CallDAppFunction deps key fid args w = (Some e, w)"
    using n by (simp add: CallDAppFunction_def)
  show "\<exists>e. StopDApp deps key w = (Some e, w)" using n by (simp add: StopDApp_def)
  show "\<exists>e. DApps deps w = (Inl e, w)" using n by (simp add: DApps_def)
  show "(fst (start deps dbDir km config w) = None) =
        (panthalassaInstance (snd (start deps dbDir km config w)) \<noteq> None)"
    using n by (rule start_fresh)
next
  assume s: "panthalassaInstance w = Some inst"
  show "\<exists>e. fst (start deps dbDir km config w) = Some e"
    using start_existing [OF s] by blast
  show "panthalassaInstance (snd (start deps dbDir km config w)) = Some inst"
    using start_existing [OF s] by blast
  show "\<exists>e. fst (Start deps dbDir cfg password w) = Some e"
    using s start_existing [OF s] by (auto simp add: Start_def split: sum.splits)
  show "panthalassaInstance (snd (Start deps dbDir cfg password w)) = Some inst"
    using s start_existing [OF s] by (auto simp add: Start_def split: sum.splits)
  show "\<exists>e. fst (StartFromMnemonic deps dbDir cfg mnemonic w) = Some e"
    using s start_existing [OF s] by (auto simp add: StartFromMnemonic_def split: sum.splits)
  show "panthalassaInstance (snd (StartFromMnemonic deps dbDir cfg mnemonic w)) = Some inst"
    using s start_existing [OF s] by (auto simp add: StartFromMnemonic_def split: sum.splits)
qed

theorem exported_api_needs_started_instance_witness:
  "\<forall>deps.
     (\<exists>e. EthPrivateKey deps \<lparr>panthalassaInstance = None, actions = []\<rparr> =
            (Inl e, \<lparr>panthalassaInstance = None, actions = []\<rparr>)) \<and>
     (\<exists>e. Stop deps \<lparr>panthalassaInstance = None, actions = []\<rparr> =
            (Some e, \<lparr>panthalassaInstance = None, actions = []\<rparr>)) \<and>
     (\<exists>e. CallDAppFunction deps ''00'' 1 ''[]'' \<lparr>panthalassaInstance = None, actions = []\<rparr> =
            (Some e, \<lparr>panthalassaInstance = None, actions = []\<rparr>)) \<and>
     (\<exists>e. fst (start deps ''dir'' ''km''
                 \<lparr>EncryptedKeyManager = ''{}'', EnableDebugging = True, PrivChatEndpoint = ''ws''\<rparr>
                 \<lparr>panthalassaInstance = Some \<lparr>inst_km = ''km0'', inst_db = ''db0''\<rparr>, actions = []\<rparr>)
           = Some e) \<and>
     panthalassaInstance (snd (start deps ''dir'' ''km''
                 \<lparr>EncryptedKeyManager = ''{}'', EnableDebugging = True, PrivChatEndpoint = ''ws''\<rparr>
                 \<lparr>panthalassaInstance = Some \<lparr>inst_km = ''km0'', inst_db = ''db0''\<rparr>, actions = []\<rparr>))
       = Some \<lparr>inst_km = ''km0'', inst_db = ''db0''\<rparr>"
proof
  fix deps :: api_deps
  have n: "panthalassaInstance \<lparr>panthalassaInstance = None, actions = []\<rparr> = None"
    by simp
  have s: "panthalassaInstance
             \<lparr>panthalassaInstance = Some \<lparr>inst_km = ''km0'', inst_db = ''db0''\<rparr>, actions = []\<rparr>
           = Some \<lparr>inst_km = ''km0'', inst_db = ''db0''\<rparr>"
    by simp
  show "(\<exists>e. EthPrivateKey deps \<lparr>panthalassaInstance = None, actions = []\<rparr> =
            (Inl e, \<lparr>panthalassaInstance = None, actions = []\<rparr>)) \<and>
     (\<exists>e. Stop deps \<lparr>panthalassaInstance = None, actions = []\<rparr> =
            (Some e, \<lparr>panthalassaInstance = None, actions = []\<rparr>)) \<and>
     (\<exists>e. CallDAppFunction deps ''00'' 1 ''[]'' \<lparr>panthalassaInstance = None, actions = []\<rparr> =
            (Some e, \<lparr>panthalassaInstance = None, actions = []\<rparr>)) \<and>
     (\<exists>e. fst (start deps ''dir'' ''km''
                 \<lparr>EncryptedKeyManager = ''{}'', EnableDebugging = True, PrivChatEndpoint = ''ws''\<rparr>
                 \<lparr>panthalassaInstance = Some \<lparr>inst_km = ''km0'', inst_db = ''db0''\<rparr>, actions = []\<rparr>)
           = Some e) \<and>
     panthalassaInstance (snd (start deps ''dir'' ''km''
                 \<lparr>EncryptedKeyManager = ''{}'', EnableDebugging = True, PrivChatEndpoint = ''ws''\<rparr>
                 \<lparr>panthalassaInstance = Some \<lparr>inst_km = ''km0'', inst_db = ''db0''\<rparr>, actions = []\<rparr>))
       = Some \<lparr>inst_km = ''km0'', inst_db = ''db0''\<rparr>"
    using exported_api_needs_started_instance
            [where w = "\<lparr>panthalassaInstance = None, actions = []\<rparr>" and deps = deps
               and key = "''00''" and fid = 1 and args = "''[]''",
             THEN conjunct1, rule_format, OF n]
          exported_api_needs_started_instance
            [where w = "\<lparr>panthalassaInstance = Some \<lparr>inst_km = ''km0'', inst_db = ''db0''\<rparr>,
                         actions = []\<rparr>"
               and deps = deps and dbDir = "''dir''" and km = "''km''"
               and config = "\<lparr>EncryptedKeyManager = ''{}'', EnableDebugging = True,
                              PrivChatEndpoint = ''ws''\<rparr>"
               and inst = "\<lparr>inst_km = ''km0'', inst_db = ''db0''\<rparr>",
             THEN conjunct2, rule_format, OF s]
    by blast
qed

subsection \<open>Inbound dispatch: malformed envelopes and unmatched responses\<close>

text \<open>
  Claim C6. An inbound envelope that carries both a request and a response makes the
  dispatch turn fail with an error and leaves the backend as it was: no handler has been
  called, nothing was sent, and the correlation table was not touched. An envelope
  with a response whose request id is not in the correlation table makes the turn fail
  with an error as well.
\<close>

theorem OnMessage_rejects_malformed:
  "(bm_Request msg \<noteq> None \<and> bm_Response msg \<noteq> None \<longrightarrow>
      (\<exists>e. OnMessage tsend msg b = (Some e, b))) \<and>
   (bm_Response msg \<noteq> None \<and> stack b (bm_RequestID msg) = None \<longrightarrow>
      (\<exists>e. fst (OnMessage tsend msg b) = Some e))"
proof (intro conjI impI)
  assume "bm_Request msg \<noteq> None \<and> bm_Response msg \<noteq> None"
  then show "\<exists>e. OnMessage tsend msg b = (Some e, b)"
    by (simp add: OnMessage_def)
next
  assume a: "bm_Response msg \<noteq> None \<and> stack b (bm_RequestID msg) = None"
  show "\<exists>e. fst (OnMessage tsend msg b) = Some e"
  proof (cases "bm_Request msg")
    case None
    with a show ?thesis
      by (auto simp add: OnMessage_def handle_response_def Cut_def)
  next
    case (Some req)
    with a show ?thesis
      by (simp add: OnMessage_def)
  qed
qed

theorem OnMessage_rejects_malformed_witness:
  "(\<exists>e. OnMessage (\<lambda>m. None)
          \<lparr>bm_RequestID = ''7'',
           bm_Request = Some \<lparr>req_Messages = [], req_NewOneTimePreKeys = 1\<rparr>,
           bm_Response = Some \<lparr>resp_OneTimePrekeys = [], resp_Auth = None\<rparr>,
           bm_Error = []\<rparr>
          \<lparr>stack = Map.empty, requestHandler = [messagesHandler], authenticated = True,
           sent = [], invoked = [], delivered = []\<rparr>
        = (Some e,
           \<lparr>stack = Map.empty, requestHandler = [messagesHandler], authenticated = True,
            sent = [], invoked = [], delivered = []\<rparr>)) \<and>
   (\<exists>e. fst (OnMessage (\<lambda>m. None)
          \<lparr>bm_RequestID = ''7'', bm_Request = None,
           bm_Response = Some \<lparr>resp_OneTimePrekeys = [], resp_Auth = None\<rparr>,
           bm_Error = []\<rparr>
          \<lparr>stack = Map.empty, requestHandler = [messagesHandler], authenticated = True,
           sent = [], invoked = [], delivered = []\<rparr>) = Some e)"
  using OnMessage_rejects_malformed
          [where msg = "\<lparr>bm_RequestID = ''7'',
                         bm_Request = Some \<lparr>req_Messages = [], req_NewOneTimePreKeys = 1\<rparr>,
                         bm_Response = Some \<lparr>resp_OneTimePrekeys = [], resp_Auth = None\<rparr>,
                         bm_Error = []\<rparr>"
             and tsend = "\<lambda>m. None"
             and b = "\<lparr>stack = Map.empty, requestHandler = [messagesHandler],
                       authenticated = True, sent = [], invoked = [], delivered = []\<rparr>"]
        OnMessage_rejects_malformed
          [where msg = "\<lparr>bm_RequestID = ''7'', bm_Request = None,
                         bm_Response = Some \<lparr>resp_OneTimePrekeys = [], resp_Auth = None\<rparr>,
                         bm_Error = []\<rparr>"
             and tsend = "\<lambda>m. None"
             and b = "\<lparr>stack = Map.empty, requestHandler = [messagesHandler],
                       authenticated = True, sent = [], invoked = [], delivered = []\<rparr>"]
  by simp

subsection \<open>Pages of messages\<close>

lemma walk_back_length:
  "length (fst (walk_back env b pos n messages)) \<le> length messages + n"
proof (induction n arbitrary: pos messages)
  case 0
  show ?case by simp
next
  case (Suc n)
  show ?case
  proof (cases "pos = 0")
    case True
    then show ?thesis by simp
  next
    case False
    show ?thesis
    proof (cases "decRawMsg env (cursor_value b (pos - 1))")
      case (Inl err)
      with False show ?thesis by simp
    next
      case (Inr msg)
      have "length (fst (walk_back env b (pos - 1) n (messages @ [msg])))
              \<le> length (messages @ [msg]) + n"
        by (rule Suc.IH)
      with False Inr show ?thesis by simp
    qed
  qed
qed

lemma Messages_length: "length (fst (Messages env s partner seek amount)) \<le> amount"
proof (cases "amount < 1")
  case True
  then show ?thesis by (simp add: Messages_def)
next
  case False
  have w: "length (fst (walk_back env b pos (amount - Suc 0) [msg])) \<le> amount" for b pos msg
    using walk_back_length [of env b pos "amount - Suc 0" "[msg]"] False by simp
  show ?thesis
    using False
    by (simp add: Messages_def Let_def split_beta sort_by_DatabaseID_def w
             split: option.splits sum.splits)
qed

lemma Messages_sorted:
  "sorted (map (\<lambda>m. sint (DatabaseID m)) (fst (Messages env s partner seek amount)))"
  by (simp add: Messages_def Let_def split_beta sort_by_DatabaseID_def
           split: option.splits sum.splits)

text \<open>
  Claim C5. \<open>Messages\<close> fails when the amount is below one. For every partner, start
  and amount, whatever the storage holds and whether or not a stored value can be
  opened, the list it returns has at most \<open>amount\<close> messages and is in ascending order
  of the (signed) database id.
\<close>

theorem Messages_page:
  "(amount < 1 \<longrightarrow> (\<exists>e. Messages env s partner seek amount = ([], Some e))) \<and>
   length (fst (Messages env s partner seek amount)) \<le> amount \<and>
   sorted (map (\<lambda>m. sint (DatabaseID m)) (fst (Messages env s partner seek amount)))"
  using Messages_length [of env s partner seek amount]
        Messages_sorted [of env s partner seek amount]
  by (simp add: Messages_def)

theorem Messages_page_witness:
  "(\<exists>e. Messages example_storage_env example_storage [1] 0 0 = ([], Some e)) \<and>
   length (fst (Messages example_storage_env example_storage [1] 0 0)) \<le> 0 \<and>
   length (fst (Messages example_storage_env example_storage [1] 0 2)) \<le> 2 \<and>
   sorted (map (\<lambda>m. sint (DatabaseID m))
             (fst (Messages example_storage_env example_storage [1] 0 2)))"
  using Messages_page [of 0 example_storage_env example_storage "[1]" 0]
        Messages_page [of 2 example_storage_env example_storage "[1]" 0]
  by simp

subsection \<open>One-time pre-key replenishment\<close>

lemma generateKeyPairs_returns:
  "length keyPairs \<le> n \<Longrightarrow>
   \<exists>r. generateKeyPairs gen n keyPairs = Some r \<and>
       (\<forall>ks. r = Inr ks \<longrightarrow> length ks = n) \<and>
       ((\<forall>i. \<exists>kp. gen i = Inr kp) \<longrightarrow> (\<exists>ks. r = Inr ks))"
proof (induction "n - length keyPairs" arbitrary: keyPairs)
  case 0
  then have "length keyPairs = n" by simp
  then show ?case by (subst generateKeyPairs.simps) simp
next
  case (Suc d)
  then have ne: "length keyPairs \<noteq> n" by simp
  show ?case
  proof (cases "gen (length keyPairs)")
    case (Inl err)
    with ne show ?thesis
      by (subst generateKeyPairs.simps) (auto intro: exI [of _ "length keyPairs"])
  next
    case (Inr keyPair)
    have "d = n - length (keyPairs @ [keyPair])" and "length (keyPairs @ [keyPair]) \<le> n"
      using Suc.hyps(2) Suc.prems by simp_all
    then have "\<exists>r. generateKeyPairs gen n (keyPairs @ [keyPair]) = Some r \<and>
       (\<forall>ks. r = Inr ks \<longrightarrow> length ks = n) \<and>
       ((\<forall>i. \<exists>kp. gen i = Inr kp) \<longrightarrow> (\<exists>ks. r = Inr ks))"
      by (rule Suc.hyps(1))
    with ne Inr show ?thesis
      by (subst generateKeyPairs.simps) simp
  qed
qed

text \<open>
  The key pairs the loop returns are the generator's draws, in order: the pair at
  position \<open>i\<close> is what the \<open>i\<close>-th call of \<open>GenerateKeyPair\<close> returned.
\<close>

lemma generateKeyPairs_draws:
  "length keyPairs \<le> n \<Longrightarrow>
   map gen [0..<length keyPairs] = map Inr keyPairs \<Longrightarrow>
   generateKeyPairs gen n keyPairs = Some (Inr ks) \<Longrightarrow>
   map gen [0..<n] = map Inr ks"
proof (induction "n - length keyPairs" arbitrary: keyPairs)
  case 0
  then have "length keyPairs = n" by simp
  with "0.prems" show ?case
    by (subst (asm) generateKeyPairs.simps) simp
next
  case (Suc d)
  then have ne: "length keyPairs \<noteq> n" by simp
  show ?case
  proof (cases "gen (length keyPairs)")
    case (Inl err)
    with ne Suc.prems(3) show ?thesis
      by (subst (asm) generateKeyPairs.simps) simp
  next
    case (Inr keyPair)
    have d: "d = n - length (keyPairs @ [keyPair])" and le: "length (keyPairs @ [keyPair]) \<le> n"
      using Suc.hyps(2) Suc.prems(1) by simp_all
    have drawn: "map gen [0..<length (keyPairs @ [keyPair])] = map Inr (keyPairs @ [keyPair])"
      using Suc.prems(2) Inr by simp
    have rest: "generateKeyPairs gen n (keyPairs @ [keyPair]) = Some (Inr ks)"
      using Suc.prems(3) ne Inr by (subst (asm) generateKeyPairs.simps) simp
    show ?thesis
      using d le drawn rest by (rule Suc.hyps(1))
  qed
qed

lemma signPreKeys_length:
  "signPreKeys env keyPairs preKeys = Inr r \<Longrightarrow> length r = length preKeys + length keyPairs"
  by (induction keyPairs arbitrary: preKeys) (auto split: sum.splits)

text \<open>
  The pre-keys the signing loop returns are, in order, the protobuf forms of the public
  halves of the key pairs, each with the signature \<open>pk.Sign\<close> gave for that public key.
\<close>

lemma signPreKeys_signed:
  "signPreKeys env keyPairs preKeys = Inr r \<Longrightarrow>
   \<exists>new. r = preKeys @ new \<and>
     list_all2 (\<lambda>kp p. \<exists>sig. pk_Sign env (PublicKey kp) = Inr sig \<and>
                              pk_ToProtobuf env (PublicKey kp, sig) = Inr p) keyPairs new"
proof (induction keyPairs arbitrary: preKeys)
  case Nil
  then show ?case by simp
next
  case (Cons kp rest)
  from Cons.prems obtain sig p where
    s: "pk_Sign env (PublicKey kp) = Inr sig" and
    p: "pk_ToProtobuf env (PublicKey kp, sig) = Inr p" and
    r: "signPreKeys env rest (preKeys @ [p]) = Inr r"
    by (auto split: sum.splits)
  from Cons.IH [OF r] obtain new where
    n: "r = (preKeys @ [p]) @ new" and
    a: "list_all2 (\<lambda>kp p. \<exists>sig. pk_Sign env (PublicKey kp) = Inr sig \<and>
                              pk_ToProtobuf env (PublicKey kp, sig) = Inr p) rest new"
    by blast
  have "r = preKeys @ (p # new)"
    using n by simp
  moreover have "list_all2 (\<lambda>kp p. \<exists>sig. pk_Sign env (PublicKey kp) = Inr sig \<and>
                              pk_ToProtobuf env (PublicKey kp, sig) = Inr p) (kp # rest) (p # new)"
    using s p a by auto
  ultimately show ?case by blast
qed

lemma signPreKeys_succeeds:
  "\<forall>k. \<exists>sig. pk_Sign env k = Inr sig \<Longrightarrow> \<forall>x. \<exists>p. pk_ToProtobuf env x = Inr p \<Longrightarrow>
   \<exists>r. signPreKeys env keyPairs preKeys = Inr r"
proof (induction keyPairs arbitrary: preKeys)
  case Nil
  show ?case by simp
next
  case (Cons kp rest)
  obtain sig where s: "pk_Sign env (PublicKey kp) = Inr sig"
    using Cons.prems(1) by blast
  obtain p where p: "pk_ToProtobuf env (PublicKey kp, sig) = Inr p"
    using Cons.prems(2) by blast
  show ?case
    using s p Cons.IH [OF Cons.prems, of "preKeys @ [p]"] by simp
qed

text \<open>What a response of the handler says about what was done, for a valid count.\<close>

lemma oneTimePreKeysHandler_response:
  assumes n: "1 \<le> req_NewOneTimePreKeys req \<and> req_NewOneTimePreKeys req \<le> 100"
    and h: "oneTimePreKeysHandler env req puts = Some ((Some resp, err), puts')"
  shows "err = None \<and> length (resp_OneTimePrekeys resp) = req_NewOneTimePreKeys req \<and>
     (\<exists>keyPairs. length keyPairs = req_NewOneTimePreKeys req \<and>
        puts' = puts @ [keyPairs] \<and>
        map (GenerateKeyPair env) [0..<req_NewOneTimePreKeys req] = map Inr keyPairs \<and>
        oneTimePreKeyStorage_Put env keyPairs = None \<and>
        list_all2 (\<lambda>kp p. \<exists>sig. pk_Sign env (PublicKey kp) = Inr sig \<and>
                                 pk_ToProtobuf env (PublicKey kp, sig) = Inr p)
          keyPairs (resp_OneTimePrekeys resp))"
proof -
  from n h obtain keyPairs preKeys where
    g: "generateKeyPairs (GenerateKeyPair env) (req_NewOneTimePreKeys req) [] = Some (Inr keyPairs)" and
    put: "oneTimePreKeyStorage_Put env keyPairs = None" and
    sg: "signPreKeys env keyPairs [] = Inr preKeys" and
    res: "resp = \<lparr>resp_OneTimePrekeys = preKeys, resp_Auth = None\<rparr>" "err = None"
         "puts' = puts @ [keyPairs]"
    by (auto simp add: oneTimePreKeysHandler_def split: sum.splits option.splits if_splits)
  have draws: "map (GenerateKeyPair env) [0..<req_NewOneTimePreKeys req] = map Inr keyPairs"
    using generateKeyPairs_draws [of "[]" "req_NewOneTimePreKeys req" "GenerateKeyPair env" keyPairs] g
    by simp
  then have "length (map (GenerateKeyPair env) [0..<req_NewOneTimePreKeys req]) =
             length (map Inr keyPairs :: (error + KeyPair) list)"
    by simp
  then have kl: "length keyPairs = req_NewOneTimePreKeys req"
    by simp
  have signed: "list_all2 (\<lambda>kp p. \<exists>sig. pk_Sign env (PublicKey kp) = Inr sig \<and>
                                 pk_ToProtobuf env (PublicKey kp, sig) = Inr p) keyPairs preKeys"
    using signPreKeys_signed [OF sg] by simp
  have pl: "length preKeys = req_NewOneTimePreKeys req"
    using signPreKeys_length [OF sg] kl by simp
  show ?thesis
    using res kl pl draws put signed by auto
qed

text \<open>
  Claim C4. A request for more than 100 one-time pre-keys is rejected with an error;
  nothing is generated or handed to the storage. For a request for \<open>N\<close> keys with
  \<open>1 \<le> N \<le> 100\<close> the handler returns, and whenever it returns a response: the key
  pairs are exactly the first \<open>N\<close> draws of \<open>GenerateKeyPair\<close>, in order; exactly one
  batch was handed to the one-time pre-key storage, it is that list of \<open>N\<close> key pairs,
  and the storage accepted it; and the response holds exactly \<open>N\<close> pre-keys, the
  \<open>i\<close>-th being the protobuf form of the public half of the \<open>i\<close>-th key pair with the
  signature that signing it with the identity key gave. The handler does return such
  a response when its collaborators (key generation, storage, signing, conversion to
  protobuf) do not fail; when one of them fails it returns that failure as an error.
\<close>

theorem oneTimePreKeysHandler_bounded:
  "(req_NewOneTimePreKeys req > 100 \<longrightarrow>
      (\<exists>e. oneTimePreKeysHandler env req puts = Some ((None, Some e), puts))) \<and>
   (1 \<le> req_NewOneTimePreKeys req \<and> req_NewOneTimePreKeys req \<le> 100 \<longrightarrow>
      (\<exists>res. oneTimePreKeysHandler env req puts = Some res) \<and>
      (\<forall>resp err puts'.
          oneTimePreKeysHandler env req puts = Some ((Some resp, err), puts') \<longrightarrow>
            err = None \<and> length (resp_OneTimePrekeys resp) = req_NewOneTimePreKeys req \<and>
            (\<exists>keyPairs. length keyPairs = req_NewOneTimePreKeys req \<and>
               puts' = puts @ [keyPairs] \<and>
               map (GenerateKeyPair env) [0..<req_NewOneTimePreKeys req] = map Inr keyPairs \<and>
               oneTimePreKeyStorage_Put env keyPairs = None \<and>
               list_all2 (\<lambda>kp p. \<exists>sig. pk_Sign env (PublicKey kp) = Inr sig \<and>
                                        pk_ToProtobuf env (PublicKey kp, sig) = Inr p)
                 keyPairs (resp_OneTimePrekeys resp))) \<and>
      ((\<forall>i. \<exists>kp. GenerateKeyPair env i = Inr kp) \<and>
       (\<forall>kps. oneTimePreKeyStorage_Put env kps = None) \<and>
       (\<forall>k. \<exists>sig. pk_Sign env k = Inr sig) \<and>
       (\<forall>x. \<exists>p. pk_ToProtobuf env x = Inr p) \<longrightarrow>
         (\<exists>resp keyPairs.
            oneTimePreKeysHandler env req puts = Some ((Some resp, None), puts @ [keyPairs]) \<and>
            length keyPairs = req_NewOneTimePreKeys req \<and>
            length (resp_OneTimePrekeys resp) = req_NewOneTimePreKeys req \<and>
            map (GenerateKeyPair env) [0..<req_NewOneTimePreKeys req] = map Inr keyPairs \<and>
            list_all2 (\<lambda>kp p. \<exists>sig. pk_Sign env (PublicKey kp) = Inr sig \<and>
                                     pk_ToProtobuf env (PublicKey kp, sig) = Inr p)
              keyPairs (resp_OneTimePrekeys resp))))"
proof (intro conjI impI allI)
  assume "req_NewOneTimePreKeys req > 100"
  then show "\<exists>e. oneTimePreKeysHandler env req puts = Some ((None, Some e), puts)"
    by (simp add: oneTimePreKeysHandler_def)
next
  assume n: "1 \<le> req_NewOneTimePreKeys req \<and> req_NewOneTimePreKeys req \<le> 100"
  obtain r where r: "generateKeyPairs (GenerateKeyPair env) (req_NewOneTimePreKeys req) [] = Some r"
    using generateKeyPairs_returns [of "[]" "req_NewOneTimePreKeys req" "GenerateKeyPair env"]
    by auto
  show "\<exists>res. oneTimePreKeysHandler env req puts = Some res"
    using n r by (auto simp add: oneTimePreKeysHandler_def split: sum.splits option.splits)
next
  fix resp err puts'
  assume n: "1 \<le> req_NewOneTimePreKeys req \<and> req_NewOneTimePreKeys req \<le> 100"
    and h: "oneTimePreKeysHandler env req puts = Some ((Some resp, err), puts')"
  have all: "err = None \<and> length (resp_OneTimePrekeys resp) = req_NewOneTimePreKeys req \<and>
     (\<exists>keyPairs. length keyPairs = req_NewOneTimePreKeys req \<and>
        puts' = puts @ [keyPairs] \<and>
        map (GenerateKeyPair env) [0..<req_NewOneTimePreKeys req] = map Inr keyPairs \<and>
        oneTimePreKeyStorage_Put env keyPairs = None \<and>
        list_all2 (\<lambda>kp p. \<exists>sig. pk_Sign env (PublicKey kp) = Inr sig \<and>
                                 pk_ToProtobuf env (PublicKey kp, sig) = Inr p)
          keyPairs (resp_OneTimePrekeys resp))"
    using n h by (rule oneTimePreKeysHandler_response)
  show "err = None" using all by blast
  show "length (resp_OneTimePrekeys resp) = req_NewOneTimePreKeys req" using all by blast
  show "\<exists>keyPairs. length keyPairs = req_NewOneTimePreKeys req \<and>
        puts' = puts @ [keyPairs] \<and>
        map (GenerateKeyPair env) [0..<req_NewOneTimePreKeys req] = map Inr keyPairs \<and>
        oneTimePreKeyStorage_Put env keyPairs = None \<and>
        list_all2 (\<lambda>kp p. \<exists>sig. pk_Sign env (PublicKey kp) = Inr sig \<and>
                                 pk_ToProtobuf env (PublicKey kp, sig) = Inr p)
          keyPairs (resp_OneTimePrekeys resp)"
    using all by blast
next
  assume n: "1 \<le> req_NewOneTimePreKeys req \<and> req_NewOneTimePreKeys req \<le> 100"
  assume ok: "(\<forall>i. \<exists>kp. GenerateKeyPair env i = Inr kp) \<and>
       (\<forall>kps. oneTimePreKeyStorage_Put env kps = None) \<and>
       (\<forall>k. \<exists>sig. pk_Sign env k = Inr sig) \<and>
       (\<forall>x. \<exists>p. pk_ToProtobuf env x = Inr p)"
  obtain r where r: "generateKeyPairs (GenerateKeyPair env) (req_NewOneTimePreKeys req) [] = Some r"
    and rok: "(\<forall>i. \<exists>kp. GenerateKeyPair env i = Inr kp) \<longrightarrow> (\<exists>ks. r = Inr ks)"
    using generateKeyPairs_returns [of "[]" "req_NewOneTimePreKeys req" "GenerateKeyPair env"]
    by auto
  obtain keyPairs where ks: "r = Inr keyPairs"
    using rok ok by blast
  obtain preKeys where pk: "signPreKeys env keyPairs [] = Inr preKeys"
    using signPreKeys_succeeds [of env keyPairs "[]"] ok by blast
  have h: "oneTimePreKeysHandler env req puts =
          Some ((Some \<lparr>resp_OneTimePrekeys = preKeys, resp_Auth = None\<rparr>, None), puts @ [keyPairs])"
    using n r ks pk ok by (simp add: oneTimePreKeysHandler_def)
  have all: "length (resp_OneTimePrekeys \<lparr>resp_OneTimePrekeys = preKeys, resp_Auth = None\<rparr>)
        = req_NewOneTimePreKeys req \<and>
     (\<exists>kps. length kps = req_NewOneTimePreKeys req \<and>
        puts @ [keyPairs] = puts @ [kps] \<and>
        map (GenerateKeyPair env) [0..<req_NewOneTimePreKeys req] = map Inr kps \<and>
        oneTimePreKeyStorage_Put env kps = None \<and>
        list_all2 (\<lambda>kp p. \<exists>sig. pk_Sign env (PublicKey kp) = Inr sig \<and>
                                 pk_ToProtobuf env (PublicKey kp, sig) = Inr p)
          kps (resp_OneTimePrekeys \<lparr>resp_OneTimePrekeys = preKeys, resp_Auth = None\<rparr>))"
    using oneTimePreKeysHandler_response [OF n h] by blast
  then have "length keyPairs = req_NewOneTimePreKeys req \<and>
        length preKeys = req_NewOneTimePreKeys req \<and>
        map (GenerateKeyPair env) [0..<req_NewOneTimePreKeys req] = map Inr keyPairs \<and>
        list_all2 (\<lambda>kp p. \<exists>sig. pk_Sign env (PublicKey kp) = Inr sig \<and>
                                 pk_ToProtobuf env (PublicKey kp, sig) = Inr p) keyPairs preKeys"
    by auto
  with h show "\<exists>resp keyPairs.
            oneTimePreKeysHandler env req puts = Some ((Some resp, None), puts @ [keyPairs]) \<and>
            length keyPairs = req_NewOneTimePreKeys req \<and>
            length (resp_OneTimePrekeys resp) = req_NewOneTimePreKeys req \<and>
            map (GenerateKeyPair env) [0..<req_NewOneTimePreKeys req] = map Inr keyPairs \<and>
            list_all2 (\<lambda>kp p. \<exists>sig. pk_Sign env (PublicKey kp) = Inr sig \<and>
                                     pk_ToProtobuf env (PublicKey kp, sig) = Inr p)
              keyPairs (resp_OneTimePrekeys resp)"
    by auto
qed

theorem oneTimePreKeysHandler_bounded_witness:
  "(\<exists>e. oneTimePreKeysHandler example_handler_env
           \<lparr>req_Messages = [], req_NewOneTimePreKeys = 101\<rparr> [] = Some ((None, Some e), [])) \<and>
   (\<exists>resp keyPairs.
       oneTimePreKeysHandler example_handler_env
           \<lparr>req_Messages = [], req_NewOneTimePreKeys = 100\<rparr> []
         = Some ((Some resp, None), [keyPairs]) \<and>
       length keyPairs = 100 \<and> length (resp_OneTimePrekeys resp) = 100 \<and>
       map (GenerateKeyPair example_handler_env) [0..<100] = map Inr keyPairs \<and>
       list_all2 (\<lambda>kp p. \<exists>sig. pk_Sign example_handler_env (PublicKey kp) = Inr sig \<and>
                                pk_ToProtobuf example_handler_env (PublicKey kp, sig) = Inr p)
         keyPairs (resp_OneTimePrekeys resp))"
proof -
  have ok: "(\<forall>i. \<exists>kp. GenerateKeyPair example_handler_env i = Inr kp) \<and>
       (\<forall>kps. oneTimePreKeyStorage_Put example_handler_env kps = None) \<and>
       (\<forall>k. \<exists>sig. pk_Sign example_handler_env k = Inr sig) \<and>
       (\<forall>x. \<exists>p. pk_ToProtobuf example_handler_env x = Inr p)"
    by (simp add: example_handler_env_def)
  have many: "req_NewOneTimePreKeys \<lparr>req_Messages = [], req_NewOneTimePreKeys = 101\<rparr> > 100"
    by simp
  have n: "1 \<le> req_NewOneTimePreKeys \<lparr>req_Messages = [], req_NewOneTimePreKeys = 100\<rparr> \<and>
           req_NewOneTimePreKeys \<lparr>req_Messages = [], req_NewOneTimePreKeys = 100\<rparr> \<le> 100"
    by simp
  have sel: "req_NewOneTimePreKeys \<lparr>req_Messages = [], req_NewOneTimePreKeys = 100\<rparr> = 100"
    by simp
  show ?thesis
    using oneTimePreKeysHandler_bounded
            [where env = example_handler_env
               and req = "\<lparr>req_Messages = [], req_NewOneTimePreKeys = 101\<rparr>" and puts = "[]",
             THEN conjunct1, rule_format, OF many]
          oneTimePreKeysHandler_bounded
            [where env = example_handler_env
               and req = "\<lparr>req_Messages = [], req_NewOneTimePreKeys = 100\<rparr>" and puts = "[]",
             THEN conjunct2, rule_format, OF n, THEN conjunct2, THEN conjunct2, rule_format, OF ok]
    unfolding sel append_Nil
    by blast
qed

text \<open>The handler on a request for two keys, evaluated.\<close>

lemma oneTimePreKeysHandler_two:
  "oneTimePreKeysHandler example_handler_env \<lparr>req_Messages = [], req_NewOneTimePreKeys = 2\<rparr> [] =
     Some ((Some \<lparr>resp_OneTimePrekeys =
                    [\<lparr>pk_Key = [0], pk_IdentityKeySignature = [0, 1]\<rparr>,
                     \<lparr>pk_Key = [1], pk_IdentityKeySignature = [1, 1]\<rparr>],
                  resp_Auth = None\<rparr>, None),
           [[\<lparr>PublicKey = [0], PrivateKey = [100]\<rparr>, \<lparr>PublicKey = [1], PrivateKey = [101]\<rparr>]])"
  by (simp add: oneTimePreKeysHandler_def example_handler_env_def generateKeyPairs.simps)

subsection \<open>Accepting an initial message\<close>

lemma hex_example: "hex_DecodeString ''0a1B'' = Inr [10, 27]"
  by (simp add: hex_DecodeString_def fromHexChar_def)

text \<open>
  Claim C7, as stated, fails: a message of the right type, with an ephemeral key, whose
  remote identity key is absent (the \<open>DH\<close> field of its header is the zero key) is not
  rejected. \<open>SecretFromRemote\<close> is called with the zero key as remote identity key and
  the secret it derives is returned.
\<close>

theorem HandleInitialMessage_absent_identity_counterexample:
  "cm_Header_DH example_initial_message = zero_key \<and>
   HandleInitialMessage example_SecretFromRemote example_initial_message example_bundle =
     (Inr (replicate 32 7),
      [\<lparr>RemoteIdKey = zero_key, RemoteEphemeralKey = copy32 [10, 27],
        MyOneTimePreKey = [1], MySignedPreKey = [2]\<rparr>])"
  by (simp add: HandleInitialMessage_def example_initial_message_def example_bundle_def
        example_SecretFromRemote_def hex_example copy32_def zero_key_def)

text \<open>
  Claim C7, amended. \<open>HandleInitialMessage\<close> returns an error, without calling
  \<open>SecretFromRemote\<close>, whenever the message type differs from the sentinel, the
  \<open>ephemeral_key\<close> entry is missing from the additional data, or its value is not valid
  hex. In every other case it calls \<open>SecretFromRemote\<close> once, with the header's \<open>DH\<close> key
  as remote identity key and the decoded ephemeral key (both copied into 32 bytes), and
  returns what that call returns.
\<close>

theorem HandleInitialMessage_checks:
  "(cm_Type m \<noteq> ''PROTOCOL_INITIALISATION'' \<or>
    cm_AdditionalData m ''ephemeral_key'' = None \<or>
    (\<exists>v e. cm_AdditionalData m ''ephemeral_key'' = Some v \<and> hex_DecodeString v = Inl e)
    \<longrightarrow> (\<exists>e. HandleInitialMessage SecretFromRemote m kb = (Inl e, []))) \<and>
   (cm_Type m = ''PROTOCOL_INITIALISATION'' \<and>
    cm_AdditionalData m ''ephemeral_key'' = Some v \<and> hex_DecodeString v = Inr raw
    \<longrightarrow> HandleInitialMessage SecretFromRemote m kb =
          (SecretFromRemote
             \<lparr>RemoteIdKey = copy32 (cm_Header_DH m), RemoteEphemeralKey = copy32 raw,
              MyOneTimePreKey = bundle_OneTimePreKey kb, MySignedPreKey = bundle_SignedPreKey kb\<rparr>,
           [\<lparr>RemoteIdKey = copy32 (cm_Header_DH m), RemoteEphemeralKey = copy32 raw,
             MyOneTimePreKey = bundle_OneTimePreKey kb, MySignedPreKey = bundle_SignedPreKey kb\<rparr>]))"
  by (auto simp add: HandleInitialMessage_def Let_def)

theorem HandleInitialMessage_checks_witness:
  "(\<exists>e. HandleInitialMessage example_SecretFromRemote
           (example_initial_message\<lparr>cm_Type := ''MESSAGE''\<rparr>) example_bundle = (Inl e, [])) \<and>
   (\<exists>e. HandleInitialMessage example_SecretFromRemote
           (example_initial_message\<lparr>cm_AdditionalData := Map.empty\<rparr>) example_bundle = (Inl e, [])) \<and>
   (\<exists>e. HandleInitialMessage example_SecretFromRemote
           (example_initial_message\<lparr>cm_AdditionalData := [''ephemeral_key'' \<mapsto> ''xyz'']\<rparr>)
           example_bundle = (Inl e, [])) \<and>
   HandleInitialMessage example_SecretFromRemote example_initial_message example_bundle =
     (example_SecretFromRemote
        \<lparr>RemoteIdKey = copy32 zero_key, RemoteEphemeralKey = copy32 [10, 27],
         MyOneTimePreKey = [1], MySignedPreKey = [2]\<rparr>,
      [\<lparr>RemoteIdKey = copy32 zero_key, RemoteEphemeralKey = copy32 [10, 27],
        MyOneTimePreKey = [1], MySignedPreKey = [2]\<rparr>])"
proof -
  have bad: "hex_DecodeString ''xyz'' = Inl (Error ''encoding/hex: invalid byte'')"
    by (simp add: hex_DecodeString_def fromHexChar_def)
  show ?thesis
    using HandleInitialMessage_checks
            [where m = "example_initial_message\<lparr>cm_Type := ''MESSAGE''\<rparr>"
               and SecretFromRemote = example_SecretFromRemote and kb = example_bundle]
          HandleInitialMessage_checks
            [where m = "example_initial_message\<lparr>cm_AdditionalData := Map.empty\<rparr>"
               and SecretFromRemote = example_SecretFromRemote and kb = example_bundle]
          HandleInitialMessage_checks
            [where m = "example_initial_message\<lparr>cm_AdditionalData := [''ephemeral_key'' \<mapsto> ''xyz'']\<rparr>"
               and SecretFromRemote = example_SecretFromRemote and kb = example_bundle]
          HandleInitialMessage_checks
            [where m = example_initial_message and v = "''0a1B''" and raw = "[10, 27]"
               and SecretFromRemote = example_SecretFromRemote and kb = example_bundle]
          bad hex_example
    by (simp add: example_initial_message_def example_bundle_def)
qed

subsection \<open>Database ids under equal timestamps\<close>

lemma find_createdAtMsgID_stuck:
  "createdAtMsgID = createdAt + 1 \<Longrightarrow>
   find_createdAtMsgID partnerBucket createdAt createdAtMsgID tried = createdAt + 1"
proof (induction partnerBucket createdAt createdAtMsgID tried rule: find_createdAtMsgID.induct)
  case (1 partnerBucket createdAt createdAtMsgID tried)
  show ?case
  proof (cases "bucket_Get partnerBucket createdAtMsgID = None \<or> tried = 1000")
    case True
    then show ?thesis
      using "1.prems" by (subst find_createdAtMsgID.simps) simp
  next
    case False
    then have "find_createdAtMsgID partnerBucket createdAt (createdAt + 1) (tried + 1) = createdAt + 1"
      by (intro "1.IH") simp_all
    with False "1.prems" show ?thesis
      by (subst find_createdAtMsgID.simps) simp
  qed
qed

lemma find_createdAtMsgID_free:
  "bucket_Get partnerBucket createdAt = None \<Longrightarrow>
   find_createdAtMsgID partnerBucket createdAt createdAt 0 = createdAt"
  by (subst find_createdAtMsgID.simps) simp

lemma find_createdAtMsgID_taken:
  "bucket_Get partnerBucket createdAt \<noteq> None \<Longrightarrow>
   find_createdAtMsgID partnerBucket createdAt createdAt 0 = createdAt + 1"
  by (subst find_createdAtMsgID.simps) (simp add: find_createdAtMsgID_stuck)

lemma low_bytes: "(2147483648 :: 8 word) = 0" "(2147483649 :: 8 word) = 1"
  by simp_all

lemmas persist_simps = PersistReceivedMessage_def persistMessage_def Let_def
  find_createdAtMsgID_free find_createdAtMsgID_taken bucket_Get_def
  example_storage_env_def example_received_def ValidMessage_def statuses_def
  StatusPersisted_def DAppMessageVersion_def StatusSent_def StatusFailedToSend_def
  StatusDelivered_def StatusFailedToHandle_def low_bytes

lemma persist_first:
  "PersistReceivedMessage example_storage_env \<lparr>private_chat = None, events = []\<rparr> [1]
     (example_received [97]) =
   (None,
    \<lparr>private_chat = Some [[1] \<mapsto> [(2147483648, [0, 97])]],
     events = [\<lparr>ev_Partner = [1],
                ev_Message = example_received [97]
                  \<lparr>Status := StatusPersisted, Received := True, Version := DAppMessageVersion,
                   DatabaseID := 2147483648\<rparr>,
                ev_DBMessageID = 2147483648\<rparr>]\<rparr>)"
  by (simp add: persist_simps)

lemma persist_second:
  "PersistReceivedMessage example_storage_env
     \<lparr>private_chat = Some [[1] \<mapsto> [(2147483648, [0, 97])]], events = evs\<rparr> [1]
     (example_received [98]) =
   (None,
    \<lparr>private_chat = Some [[1] \<mapsto> [(2147483648, [0, 97]), (2147483649, [1, 98])]],
     events = evs @ [\<lparr>ev_Partner = [1],
                ev_Message = example_received [98]
                  \<lparr>Status := StatusPersisted, Received := True, Version := DAppMessageVersion,
                   DatabaseID := 2147483649\<rparr>,
                ev_DBMessageID = 2147483649\<rparr>]\<rparr>)"
  by (simp add: persist_simps)

lemma persist_third:
  "PersistReceivedMessage example_storage_env
     \<lparr>private_chat = Some [[1] \<mapsto> [(2147483648, [0, 97]), (2147483649, [1, 98])]],
      events = evs\<rparr> [1]
     (example_received [99]) =
   (None,
    \<lparr>private_chat = Some [[1] \<mapsto> [(2147483648, [0, 97]), (2147483649, [1, 99])]],
     events = evs @ [\<lparr>ev_Partner = [1],
                ev_Message = example_received [99]
                  \<lparr>Status := StatusPersisted, Received := True, Version := DAppMessageVersion,
                   DatabaseID := 2147483649\<rparr>,
                ev_DBMessageID = 2147483649\<rparr>]\<rparr>)"
  by (simp add: persist_simps)

text \<open>
  Claim C3 does not hold of the code. Three messages of one partner with the same
  \<open>CreatedAt\<close> are persisted one after the other, each without error. The first is
  stored under the timestamp, the second under the timestamp plus one, and the third
  under the timestamp plus one again: its database id equals the second's, and it
  replaces the second message in the bucket. (The retry loop rewrites the key with
  \<open>msg.CreatedAt + 1\<close> in every round, so it never reaches the timestamp plus two.)
\<close>

theorem persistMessage_equal_timestamps_reuse_key:
  "(case PersistReceivedMessage example_storage_env \<lparr>private_chat = None, events = []\<rparr> [1]
           (example_received [97]) of
      (e1, s1) \<Rightarrow>
        (case PersistReceivedMessage example_storage_env s1 [1] (example_received [98]) of
           (e2, s2) \<Rightarrow>
             (case PersistReceivedMessage example_storage_env s2 [1] (example_received [99]) of
                (e3, s3) \<Rightarrow>
                  (e1, e2, e3, map ev_DBMessageID (events s3),
                   map_option (\<lambda>chats. chats [1]) (private_chat s3)))))
   = (None, None, None, [2147483648, 2147483649, 2147483649],
      Some (Some [(2147483648, [0, 97]), (2147483649, [1, 99])]))"
  by (simp add: persist_first persist_second persist_third)

subsection \<open>Inbound dispatch: the handler chain\<close>

lemma example_preKeyHandler_two:
  "example_preKeyHandler \<lparr>req_Messages = [[1]], req_NewOneTimePreKeys = 2\<rparr> =
     (Some \<lparr>resp_OneTimePrekeys = [\<lparr>pk_Key = [0], pk_IdentityKeySignature = [0, 1]\<rparr>,
                                   \<lparr>pk_Key = [1], pk_IdentityKeySignature = [1, 1]\<rparr>],
            resp_Auth = None\<rparr>, None)"
  by (simp add: example_preKeyHandler_def oneTimePreKeysHandler_def example_handler_env_def
        generateKeyPairs.simps)

text \<open>
  Claim C2 does not hold of the code. With \<open>messagesHandler\<close> and the pre-key handler
  registered, a request that carries a chat message and asks for two one-time pre-keys
  is answered by the first handler, and the dispatcher goes on: the second handler is
  called as well and a second response with the same request id is sent. (After a
  successful \<open>transport.Send\<close> of a response the loop over the handlers continues.)
\<close>

theorem OnMessage_continues_after_response:
  "(case OnMessage (\<lambda>m. None) example_request example_backend of
      (err, b) \<Rightarrow> (err, invoked b, map bm_RequestID (sent b), map bm_Response (sent b)))
   = (None, [0, 1], [''42'', ''42''],
      [Some \<lparr>resp_OneTimePrekeys = [], resp_Auth = None\<rparr>,
       Some \<lparr>resp_OneTimePrekeys = [\<lparr>pk_Key = [0], pk_IdentityKeySignature = [0, 1]\<rparr>,
                                    \<lparr>pk_Key = [1], pk_IdentityKeySignature = [1, 1]\<rparr>],
             resp_Auth = None\<rparr>])"
  by (simp add: OnMessage_def example_request_def example_backend_def messagesHandler_def
        example_preKeyHandler_two Let_def)

subsection \<open>Sending a message: status bookkeeping on failure\<close>

lemmas SendMessage_defs = SendMessage_def createSharedSecret_def currentSignedPreKey_def
  fetchSignedPreKey_def encryptAndSubmit_def attachHandshake_def handleSendError_def
  validX3dhPub_def example_chat_env_def example_plain_message_def Let_def hex_example

lemma handleSendError_records:
  "handleSendError env receiver msgID w err = (e, w') \<Longrightarrow>
   w' = w @ [(receiver, msgID, StatusFailedToSend)] \<and>
   (case messageDB_UpdateStatus env (length w) receiver msgID StatusFailedToSend of
      None \<Rightarrow> e = err
    | Some updateError \<Rightarrow>
        e = Error (''failed to update status with error: '' @ err_Error updateError @
                   '' - original error: '' @ err_Error err))"
  by (auto simp add: handleSendError_def split: option.splits)

text \<open>
  Claim C1 does not hold of the code. When the receiver has no shared secret yet and
  signing the ephemeral key fails, \<open>SendMessage\<close> returns that error and asks for no
  status update at all: \<open>FailedToSend\<close> is not recorded. (A failure to fetch the pre-key
  bundle, one step earlier, does go through \<open>handleSendError\<close> and is recorded, and a
  send without failure records \<open>Sent\<close>.) The \<open>UpdateStatus\<close> of the bolt storage,
  moreover, writes nothing: it leaves the storage as it was and reports success.
\<close>

theorem SendMessage_unrecorded_failure:
  "SendMessage (example_chat_env\<lparr>km_IdentitySign := (\<lambda>data. Inl (Error ''signing failed''))\<rparr>)
     [1] example_plain_message [] = (Some (Error ''signing failed''), []) \<and>
   SendMessage (example_chat_env\<lparr>backend_FetchPreKeyBundle := (\<lambda>receiver. Inl (Error ''offline''))\<rparr>)
     [1] example_plain_message [] =
     (Some (Error ''offline''), [([1], ''m1'', StatusFailedToSend)]) \<and>
   SendMessage example_chat_env [1] example_plain_message [] = (None, [([1], ''m1'', StatusSent)]) \<and>
   UpdateStatus example_storage [1] ''m1'' StatusFailedToSend = (None, example_storage)"
  by (simp add: SendMessage_defs UpdateStatus_def)

subsection \<open>The proxied key store: failures of \<open>Get\<close>\<close>

lemma DoubleRatchetKeyStoreApi_Get_failures:
  "(\<exists>err. api_request env (Request_DRKeyStoreGet k msgNum) = Inl err) \<or>
   (\<exists>resp g. api_request env (Request_DRKeyStoreGet k msgNum) = Inr resp \<and>
        DRKeyStoreGet (Msg resp) = Some g \<and>
        ((\<exists>err. aes_Unmarshal env (MessageKey g) = Inl err) \<or>
         (\<exists>ct. aes_Unmarshal env (MessageKey g) = Inr ct \<and>
               ((\<exists>err. AESDecrypt env ct = Inl err) \<or>
                (\<exists>mk. AESDecrypt env ct = Inr mk \<and> length mk \<noteq> 32))))) \<Longrightarrow>
   \<exists>closer. DoubleRatchetKeyStoreApi_Get env k msgNum = Return ((zero_key, False), closer)"
  by (auto simp add: DoubleRatchetKeyStoreApi_Get_def)

lemma DoubleRatchetKeyStoreApi_Get_panics_iff:
  "(DoubleRatchetKeyStoreApi_Get env k msgNum = Panic) =
   (\<exists>resp. api_request env (Request_DRKeyStoreGet k msgNum) = Inr resp \<and>
           DRKeyStoreGet (Msg resp) = None)"
  by (auto simp add: DoubleRatchetKeyStoreApi_Get_def split: sum.splits option.splits)

lemma DoubleRatchetKeyStore_Get_failures:
  "fst (DoubleRatchetKeyStore_Get env st k msgNum) =
     (case api_Send env (DRKeyStoreGetCall (hex_EncodeToString k) msgNum) of
        Inl err \<Rightarrow> (zero_key, False)
      | Inr resp \<Rightarrow>
          (if resp_Error resp \<noteq> None then (zero_key, False)
           else (case UnmarshalDRKeyStoreGetResponse env (resp_Payload resp) of
                   (keyResp, Some err) \<Rightarrow> (gr_Key keyResp, False)
                 | (keyResp, None) \<Rightarrow> (gr_Key keyResp, gr_Ok keyResp))))"
  by (simp add: DoubleRatchetKeyStore_Get_def Let_def split: sum.splits prod.splits option.splits)

text \<open>
  Claim C8 does not hold of the code. The failures that \<open>Get\<close> tests for (an error or
  timeout of the request, a message key that cannot be unmarshalled or decrypted, a
  decrypted key of the wrong length) all end in the zero key and \<open>false\<close>, as the
  lemmas above say. A response without the \<open>DRKeyStoreGet\<close> sub-message is not tested
  for: \<open>Get\<close> reads \<open>MessageKey\<close> through the nil pointer and panics.
\<close>

theorem DoubleRatchetKeyStoreApi_Get_nil_response:
  "DoubleRatchetKeyStoreApi_Get example_api_env zero_key 0 = Panic"
  by (simp add: DoubleRatchetKeyStoreApi_Get_def example_api_env_def)

end
